theory Spec2Isabelle
  imports Complex_Main "HOL-Library.AList" "HOL-Library.Multiset"
begin

section \<open>Dates, timestamps and durations\<close>

text \<open>
  The program works with Python's naive \<^verbatim>\<open>date\<close>, \<^verbatim>\<open>datetime\<close> and \<^verbatim>\<open>timedelta\<close> values.
  A date is represented by its proleptic Gregorian ordinal (\<^verbatim>\<open>date.toordinal()\<close>, day 1 is
  Monday 0001-01-01), a datetime by the number of microseconds since midnight of ordinal 0,
  and a timedelta by its number of microseconds. Comparison and subtraction of datetimes
  are then comparison and subtraction of integers, as they are for naive datetimes.
\<close>

type_synonym date = int
type_synonym datetime = int
type_synonym timedelta = int

definition us_per_minute :: int where
  "us_per_minute = 60000000"

definition us_per_hour :: int where
  "us_per_hour = 3600000000"

definition us_per_day :: int where
  "us_per_day = 86400000000"

text \<open>\<^verbatim>\<open>datetime(...)\<close> at a given ordinal day, hour and minute.\<close>

definition mk_datetime :: "date \<Rightarrow> int \<Rightarrow> int \<Rightarrow> datetime" where
  "mk_datetime d h m = d * us_per_day + h * us_per_hour + m * us_per_minute"

text \<open>\<^verbatim>\<open>dt.date()\<close> and \<^verbatim>\<open>dt.hour\<close>.\<close>

definition dt_date :: "datetime \<Rightarrow> date" where
  "dt_date t = t div us_per_day"

definition dt_hour :: "datetime \<Rightarrow> int" where
  "dt_hour t = (t mod us_per_day) div us_per_hour"

text \<open>\<^verbatim>\<open>dt.replace(hour=h, minute=0, second=0, microsecond=0)\<close>.\<close>

definition replace_hour :: "datetime \<Rightarrow> int \<Rightarrow> datetime" where
  "replace_hour t h = dt_date t * us_per_day + h * us_per_hour"

text \<open>\<^verbatim>\<open>timedelta(minutes=m)\<close>.\<close>

definition timedelta_minutes :: "int \<Rightarrow> timedelta" where
  "timedelta_minutes m = m * us_per_minute"

text \<open>\<^verbatim>\<open>d.weekday()\<close> (Monday is 0) and \<^verbatim>\<open>d.strftime("%A")\<close> in the default locale.\<close>

definition weekday :: "date \<Rightarrow> int" where
  "weekday d = (d + 6) mod 7"

definition strftime_A :: "date \<Rightarrow> string" where
  "strftime_A d =
     [''Monday'', ''Tuesday'', ''Wednesday'', ''Thursday'', ''Friday'', ''Saturday'', ''Sunday'']
       ! nat (weekday d)"

text \<open>
  Python's truth value of an optional number or duration: \<^verbatim>\<open>None\<close>, \<^verbatim>\<open>0\<close> and
  \<^verbatim>\<open>timedelta(0)\<close> are false.
\<close>

definition truthy :: "int option \<Rightarrow> bool" where
  "truthy x = (case x of None \<Rightarrow> False | Some v \<Rightarrow> v \<noteq> 0)"

section \<open>Tables (app/storage/models.py)\<close>

record flight =
  flight_id :: int
  flight_no :: string
  flight_date :: date
  dep_iata :: string
  arr_iata :: string
  sched_dep_utc :: datetime
  sched_arr_utc :: datetime
  aircraft_code :: string

record crew =
  crew_id :: int
  emp_code :: string
  name :: string
  rank :: string
  base_iata :: string
  status :: string

record crew_qualification =
  q_crew_id :: int
  q_aircraft_code :: string
  qualified_on :: date
  expires_on :: "date option"

record crew_preference =
  p_crew_id :: int
  preference_type :: string
  preference_value :: string
  weight :: int
  valid_from :: "date option"
  valid_to :: "date option"

record crew_availability =
  v_crew_id :: int
  availability_type :: string
  unavailable_from :: date
  unavailable_to :: date
  v_status :: string

record disruption_record =
  disruption_id :: int
  r_flight_no :: "string option"
  disruption_type :: string
  disruption_date :: date
  impact_duration :: "int option"
  r_crew_id :: "int option"
  reason :: "string option"
  resolution :: "string option"
  recorded_at :: datetime
  resolved_at :: "datetime option"

record duty_period =
  duty_id :: int
  d_crew_id :: int
  duty_start_utc :: datetime
  duty_end_utc :: datetime
  d_base_iata :: string

record duty_flight =
  l_duty_id :: int
  l_flight_id :: int
  leg_seq :: int

text \<open>The database: one list of rows per table, in table order.\<close>

record db =
  flights :: "flight list"
  crews :: "crew list"
  crew_qualifications :: "crew_qualification list"
  crew_preferences :: "crew_preference list"
  crew_availabilities :: "crew_availability list"
  disruption_records :: "disruption_record list"
  duty_periods :: "duty_period list"
  duty_flights :: "duty_flight list"

section \<open>RulesEngine (app/rules/engine.py)\<close>

text \<open>
  The engine after construction, with the thresholds of the duty, rest, streak and
  night-duty checks; the durations are already timedeltas.
\<close>

record rules_engine =
  max_duty_per_day :: timedelta
  min_rest_after_duty :: timedelta
  max_fdp :: timedelta
  max_duty_per_week :: "timedelta option"
  max_duty_per_month :: "timedelta option"
  max_consecutive_duty_days :: "int option"
  min_rest_between_duties :: "timedelta option"
  max_night_duties_per_week :: "int option"

definition duty_duration_ok :: "rules_engine \<Rightarrow> datetime \<Rightarrow> datetime \<Rightarrow> bool" where
  "duty_duration_ok rules dstart dend =
     (let duty_duration = dend - dstart in
      if duty_duration > max_duty_per_day rules then False
      else if duty_duration > max_fdp rules then False
      else True)"

definition rest_ok :: "rules_engine \<Rightarrow> datetime option \<Rightarrow> datetime \<Rightarrow> bool" where
  "rest_ok rules last_end new_start =
     (case last_end of
        None \<Rightarrow> True
      | Some le \<Rightarrow>
          (let rest_duration = new_start - le in
           if truthy (min_rest_between_duties rules)
           then rest_duration \<ge> the (min_rest_between_duties rules)
           else rest_duration \<ge> min_rest_after_duty rules))"

definition weekly_duty_ok :: "rules_engine \<Rightarrow> timedelta list \<Rightarrow> bool" where
  "weekly_duty_ok rules weekly_duties =
     (if \<not> truthy (max_duty_per_week rules) then True
      else sum_list weekly_duties \<le> the (max_duty_per_week rules))"

definition consecutive_duty_days_ok :: "rules_engine \<Rightarrow> int \<Rightarrow> bool" where
  "consecutive_duty_days_ok rules consecutive_days =
     (if \<not> truthy (max_consecutive_duty_days rules) then True
      else consecutive_days \<le> the (max_consecutive_duty_days rules))"

definition night_duty_ok :: "rules_engine \<Rightarrow> int \<Rightarrow> bool" where
  "night_duty_ok rules weekly_night_duties =
     (if \<not> truthy (max_night_duties_per_week rules) then True
      else weekly_night_duties \<le> the (max_night_duties_per_week rules))"

text \<open>
  \<^verbatim>\<open>is_night_duty\<close> does not read the engine's configuration; the same body is repeated in
  \<^verbatim>\<open>HardSoftRulesEngine.is_night_duty\<close>.
\<close>

definition is_night_duty :: "datetime \<Rightarrow> datetime \<Rightarrow> bool" where
  "is_night_duty dstart dend =
     (let night_start = replace_hour dstart 22;
          night_end = replace_hour dstart 6 in
      if dt_hour dstart \<ge> 22 \<or> dt_hour dstart < 6 then True
      else if dt_hour dend \<ge> 22 \<or> dt_hour dend < 6 then True
      else if dstart < night_start \<and> dend > night_end \<and> night_end > night_start then True
      else False)"

section \<open>GreedyAssigner (app/optimizer/simple_opt.py)\<close>

text \<open>
  Exceptions the modelled code can raise: reading an attribute of \<^verbatim>\<open>None\<close>, and date
  arithmetic leaving the range of \<^verbatim>\<open>datetime\<close> or \<^verbatim>\<open>timedelta\<close>.
\<close>

datatype py_error = AttributeError | OverflowError

type_synonym pref_map = "int \<rightharpoonup> crew_preference list"
type_synonym qual_map = "int \<rightharpoonup> (string \<rightharpoonup> crew_qualification)"
type_synonym unavailable_map = "int \<rightharpoonup> crew_availability list"

text \<open>\<^verbatim>\<open>d.get(k, default)\<close>.\<close>

definition dict_get :: "('k \<rightharpoonup> 'v) \<Rightarrow> 'k \<Rightarrow> 'v \<Rightarrow> 'v" where
  "dict_get m k d = (case m k of None \<Rightarrow> d | Some v \<Rightarrow> v)"

text \<open>The contribution of one preference row: the \<^verbatim>\<open>if\<close>/\<^verbatim>\<open>elif\<close> chain of the loop body.\<close>

definition preference_term :: "date \<Rightarrow> string \<Rightarrow> string \<Rightarrow> string \<Rightarrow> crew_preference \<Rightarrow> int" where
  "preference_term fdate dep arr fno pref =
     (if preference_type pref = ''day_off'' \<and> preference_value pref = strftime_A fdate
        then - (weight pref * 10)
      else if preference_type pref = ''base'' \<and> preference_value pref = dep
        then weight pref * 2
      else if preference_type pref = ''destination'' \<and> preference_value pref = arr
        then weight pref
      else if preference_type pref = ''flight_no'' \<and> preference_value pref = fno
        then weight pref * 3
      else if preference_type pref = ''weekend_off'' \<and> weekday fdate \<ge> 5
        then - (weight pref * 5)
      else 0)"

definition calculate_preference_score ::
  "int \<Rightarrow> date \<Rightarrow> string \<Rightarrow> string \<Rightarrow> string \<Rightarrow> pref_map \<Rightarrow> int" where
  "calculate_preference_score cid fdate dep arr fno pm =
     (let prefs = dict_get pm cid [] in
      foldl (\<lambda>score pref. score + preference_term fdate dep arr fno pref) 0 prefs)"

text \<open>
  The per-crew duty counter is the one dictionary whose values are iterated (for the mean,
  the maximum and the minimum), so it is an association list in insertion order; the
  others are only read and written by key. Python's floats are modelled by rationals.
\<close>

definition calculate_multi_objective_score ::
  "int \<Rightarrow> flight \<Rightarrow> pref_map \<Rightarrow> (int \<times> int) list \<Rightarrow> (int \<rightharpoonup> int) \<Rightarrow> (int \<rightharpoonup> int) \<Rightarrow> rat \<Rightarrow> rat" where
  "calculate_multi_objective_score cid f pm crew_duty_cnt crew_consecutive crew_night avg_duty_count =
     (let pref_score = calculate_preference_score cid (flight_date f) (dep_iata f) (arr_iata f)
                         (flight_no f) pm;
          duty_count = dict_get (map_of crew_duty_cnt) cid 0;
          consecutive_days = dict_get crew_consecutive cid 0;
          night_duties = dict_get crew_night cid 0;
          fairness0 = (if avg_duty_count > 0
                       then 0 - \<bar>of_int duty_count - avg_duty_count\<bar> * 2 else 0);
          fairness1 = fairness0 - of_int consecutive_days * (3 / 2);
          fairness_score = fairness1 - of_int night_duties * 1;
          efficiency_score = of_int duty_count * (1 / 2)
      in (of_int pref_score * (1 / 2)) + (fairness_score * (3 / 10)) + (efficiency_score * (2 / 10)))"

definition is_crew_qualified_for_flight :: "int \<Rightarrow> flight \<Rightarrow> qual_map \<Rightarrow> date \<Rightarrow> bool" where
  "is_crew_qualified_for_flight cid f qm fdate =
     (let crew_quals = dict_get qm cid Map.empty in
      case crew_quals (aircraft_code f) of
        None \<Rightarrow> False
      | Some qual \<Rightarrow>
          (case expires_on qual of
             None \<Rightarrow> True
           | Some e \<Rightarrow> if e < fdate then False else True))"

definition is_crew_available :: "int \<Rightarrow> date \<Rightarrow> unavailable_map \<Rightarrow> bool" where
  "is_crew_available cid fdate um =
     (case um cid of
        None \<Rightarrow> True
      | Some records \<Rightarrow>
          \<not> list_ex (\<lambda>r. unavailable_from r \<le> fdate \<and> fdate \<le> unavailable_to r) records)"

subsection \<open>The queries and maps at the head of generate\_roster\<close>

text \<open>
  A query returns the rows of its table that pass the filter, in table order;
  \<^verbatim>\<open>order_by\<close> is a stable sort of them.
\<close>

definition period_flights :: "db \<Rightarrow> date \<Rightarrow> date \<Rightarrow> flight list" where
  "period_flights d period_start period_end =
     sort_key sched_dep_utc
       (filter (\<lambda>f. flight_date f \<ge> period_start \<and> flight_date f \<le> period_end) (flights d))"

definition active_crew :: "db \<Rightarrow> crew list" where
  "active_crew d = filter (\<lambda>c. status c = ''Active'') (crews d)"

definition unavailable_crew_records :: "db \<Rightarrow> date \<Rightarrow> date \<Rightarrow> crew_availability list" where
  "unavailable_crew_records d period_start period_end =
     filter (\<lambda>r. unavailable_from r \<le> period_end \<and> unavailable_to r \<ge> period_start \<and>
                 v_status r = ''approved'') (crew_availabilities d)"

definition build_unavailable_crew_map :: "crew_availability list \<Rightarrow> unavailable_map" where
  "build_unavailable_crew_map records =
     foldl (\<lambda>m r. m(v_crew_id r \<mapsto> dict_get m (v_crew_id r) [] @ [r])) Map.empty records"

definition qualification_current :: "date \<Rightarrow> crew_qualification \<Rightarrow> bool" where
  "qualification_current today q =
     (case expires_on q of None \<Rightarrow> True | Some e \<Rightarrow> e \<ge> today)"

definition build_qualification_map :: "date \<Rightarrow> crew_qualification list \<Rightarrow> qual_map" where
  "build_qualification_map today quals =
     foldl (\<lambda>m q. if qualification_current today q
                   then m(q_crew_id q \<mapsto> (dict_get m (q_crew_id q) Map.empty)(q_aircraft_code q \<mapsto> q))
                   else m) Map.empty quals"

definition preference_current :: "date \<Rightarrow> crew_preference \<Rightarrow> bool" where
  "preference_current today p =
     ((case valid_from p of None \<Rightarrow> True | Some a \<Rightarrow> a \<le> today) \<and>
      (case valid_to p of None \<Rightarrow> True | Some b \<Rightarrow> b \<ge> today))"

definition build_preference_map :: "crew_preference list \<Rightarrow> pref_map" where
  "build_preference_map prefs =
     foldl (\<lambda>m p. m(p_crew_id p \<mapsto> dict_get m (p_crew_id p) [] @ [p])) Map.empty prefs"

subsection \<open>The running per-crew aggregates\<close>

record greedy_state =
  crew_duty_history :: "int \<rightharpoonup> timedelta list"
  crew_last_duty_end :: "int \<rightharpoonup> datetime"
  crew_duty_count :: "(int \<times> int) list"
  crew_weekly_duties :: "int \<rightharpoonup> timedelta list"
  crew_consecutive_days :: "int \<rightharpoonup> int"
  crew_night_duties :: "int \<rightharpoonup> int"

definition initial_state :: greedy_state where
  "initial_state =
     \<lparr>crew_duty_history = Map.empty, crew_last_duty_end = Map.empty, crew_duty_count = [],
      crew_weekly_duties = Map.empty, crew_consecutive_days = Map.empty,
      crew_night_duties = Map.empty\<rparr>"

record assignment =
  a_crew_id :: "int option"
  a_crew_name :: "string option"
  a_flight_id :: int
  a_duty_start_utc :: datetime
  a_duty_end_utc :: datetime
  a_note :: "string option"

definition assigned_entry :: "crew \<Rightarrow> flight \<Rightarrow> assignment" where
  "assigned_entry c f =
     \<lparr>a_crew_id = Some (crew_id c), a_crew_name = Some (name c), a_flight_id = flight_id f,
      a_duty_start_utc = sched_dep_utc f, a_duty_end_utc = sched_arr_utc f, a_note = None\<rparr>"

definition unassigned_entry :: "flight \<Rightarrow> assignment" where
  "unassigned_entry f =
     \<lparr>a_crew_id = None, a_crew_name = None, a_flight_id = flight_id f,
      a_duty_start_utc = sched_dep_utc f, a_duty_end_utc = sched_arr_utc f,
      a_note = Some ''UNASSIGNED''\<rparr>"

text \<open>The chain of \<^verbatim>\<open>continue\<close> tests on one crew member for one flight.\<close>

definition crew_passes ::
  "rules_engine \<Rightarrow> qual_map \<Rightarrow> unavailable_map \<Rightarrow> greedy_state \<Rightarrow> flight \<Rightarrow> crew \<Rightarrow> bool" where
  "crew_passes rules qm um st f c =
     (let start = sched_dep_utc f; dend = sched_arr_utc f in
      if \<not> is_crew_qualified_for_flight (crew_id c) f qm (flight_date f) then False
      else if \<not> is_crew_available (crew_id c) (flight_date f) um then False
      else if \<not> duty_duration_ok rules start dend then False
      else if \<not> rest_ok rules (crew_last_duty_end st (crew_id c)) start then False
      else if \<not> weekly_duty_ok rules (dict_get (crew_weekly_duties st) (crew_id c) []) then False
      else if \<not> consecutive_duty_days_ok rules (dict_get (crew_consecutive_days st) (crew_id c) 0)
        then False
      else if is_night_duty start dend \<and>
              \<not> night_duty_ok rules (dict_get (crew_night_duties st) (crew_id c) 0) then False
      else True)"

definition eligible_crew ::
  "rules_engine \<Rightarrow> qual_map \<Rightarrow> unavailable_map \<Rightarrow> pref_map \<Rightarrow> greedy_state \<Rightarrow> crew list \<Rightarrow> flight
     \<Rightarrow> (crew \<times> int \<times> int \<times> int \<times> int) list" where
  "eligible_crew rules qm um pm st crew_list f =
     map (\<lambda>c. (c,
                calculate_preference_score (crew_id c) (flight_date f) (dep_iata f) (arr_iata f)
                  (flight_no f) pm,
                dict_get (map_of (crew_duty_count st)) (crew_id c) 0,
                dict_get (crew_consecutive_days st) (crew_id c) 0,
                dict_get (crew_night_duties st) (crew_id c) 0))
         (filter (crew_passes rules qm um st f) crew_list)"

definition avg_duty_count_of :: "(int \<times> int) list \<Rightarrow> rat" where
  "avg_duty_count_of cdc =
     (if cdc \<noteq> [] then of_int (sum_list (map snd cdc)) / of_int (int (length cdc)) else 0)"

text \<open>
  The statements under \<^verbatim>\<open># Update crew history\<close>, in the order of the source: the
  last-duty-end entry is written first and read back afterwards for the streak.
\<close>

definition update_crew_history ::
  "greedy_state \<Rightarrow> int \<Rightarrow> datetime \<Rightarrow> datetime \<Rightarrow> int \<Rightarrow> int \<Rightarrow> greedy_state" where
  "update_crew_history st cid start dend consecutive_count night_count =
     (let duty_duration = dend - start;
          st1 = st\<lparr>crew_last_duty_end := (crew_last_duty_end st)(cid \<mapsto> dend)\<rparr>;
          st2 = st1\<lparr>crew_duty_history :=
                  (crew_duty_history st1)(cid \<mapsto> dict_get (crew_duty_history st1) cid [] @ [duty_duration])\<rparr>;
          st3 = st2\<lparr>crew_duty_count :=
                  AList.update cid (dict_get (map_of (crew_duty_count st2)) cid 0 + 1)
                    (crew_duty_count st2)\<rparr>;
          st4 = st3\<lparr>crew_weekly_duties :=
                  (crew_weekly_duties st3)(cid \<mapsto> dict_get (crew_weekly_duties st3) cid [] @ [duty_duration])\<rparr>;
          last_duty_end = crew_last_duty_end st4 cid;
          st5 = (case last_duty_end of
                   Some lde \<Rightarrow>
                     if dt_date start - dt_date lde = 1
                     then st4\<lparr>crew_consecutive_days := (crew_consecutive_days st4)(cid \<mapsto> consecutive_count + 1)\<rparr>
                     else st4\<lparr>crew_consecutive_days := (crew_consecutive_days st4)(cid \<mapsto> 1)\<rparr>
                 | None \<Rightarrow> st4\<lparr>crew_consecutive_days := (crew_consecutive_days st4)(cid \<mapsto> 1)\<rparr>)
      in if is_night_duty start dend
         then st5\<lparr>crew_night_duties := (crew_night_duties st5)(cid \<mapsto> night_count + 1)\<rparr>
         else st5)"

text \<open>
  One iteration of the loop over the flights. The stable sort on the negated score puts
  the best crew first, the first encountered among equal scores.
\<close>

definition assign_flight ::
  "rules_engine \<Rightarrow> qual_map \<Rightarrow> unavailable_map \<Rightarrow> pref_map \<Rightarrow> crew list \<Rightarrow> greedy_state \<Rightarrow> flight
     \<Rightarrow> assignment \<times> greedy_state" where
  "assign_flight rules qm um pm crew_list st f =
     (let start = sched_dep_utc f; dend = sched_arr_utc f;
          eligible = eligible_crew rules qm um pm st crew_list f;
          avg_duty_count = avg_duty_count_of (crew_duty_count st);
          scored_crew =
            map (\<lambda>(c, pref_score, duty_count, consecutive_count, night_count).
                   (c, calculate_multi_objective_score (crew_id c) f pm (crew_duty_count st)
                         (crew_consecutive_days st) (crew_night_duties st) avg_duty_count,
                    pref_score, duty_count, consecutive_count, night_count)) eligible;
          sorted_crew = sort_key (\<lambda>x. - fst (snd x)) scored_crew
      in case sorted_crew of
           [] \<Rightarrow> (unassigned_entry f, st)
         | (c, multi_score, pref_score, duty_count, consecutive_count, night_count) # _ \<Rightarrow>
             (assigned_entry c f,
              update_crew_history st (crew_id c) start dend consecutive_count night_count))"

fun assign_flights ::
  "rules_engine \<Rightarrow> qual_map \<Rightarrow> unavailable_map \<Rightarrow> pref_map \<Rightarrow> crew list \<Rightarrow> greedy_state
     \<Rightarrow> flight list \<Rightarrow> assignment list \<times> greedy_state" where
  "assign_flights rules qm um pm crew_list st [] = ([], st)"
| "assign_flights rules qm um pm crew_list st (f # fs) =
     (case assign_flight rules qm um pm crew_list st f of
        (a, st') \<Rightarrow>
          (case assign_flights rules qm um pm crew_list st' fs of
             (as, st'') \<Rightarrow> (a # as, st'')))"

subsection \<open>KPIs\<close>

record kpis =
  flights_total :: int
  flights_assigned :: int
  assignment_rate :: rat
  avg_duty_per_crew :: rat
  max_duty_per_crew :: int
  min_duty_per_crew :: int
  duty_distribution_range :: int
  compliance_rate :: rat
  avg_preference_score :: rat
  fairness_score :: rat

text \<open>\<^verbatim>\<open>a.get("crew_id")\<close> as a condition: \<^verbatim>\<open>None\<close> and \<^verbatim>\<open>0\<close> are false.\<close>

definition has_crew :: "assignment \<Rightarrow> bool" where
  "has_crew a = truthy (a_crew_id a)"

definition max_duty_count_of :: "(int \<times> int) list \<Rightarrow> int" where
  "max_duty_count_of cdc = (if cdc \<noteq> [] then Max (set (map snd cdc)) else 0)"

definition min_duty_count_of :: "(int \<times> int) list \<Rightarrow> int" where
  "min_duty_count_of cdc = (if cdc \<noteq> [] then Min (set (map snd cdc)) else 0)"

text \<open>
  The \<^verbatim>\<open>kpis\<close> dictionary. generate\_roster and \_process\_solution build it with the same
  expressions from the number of flights, the assignments, the duty counter and the
  total preference score.
\<close>

definition make_kpis :: "int \<Rightarrow> int \<Rightarrow> (int \<times> int) list \<Rightarrow> int \<Rightarrow> kpis" where
  "make_kpis total_flights assigned_count cdc total_pref_score =
     (let avg_duty_count = avg_duty_count_of cdc;
          max_duty_count = max_duty_count_of cdc;
          min_duty_count = min_duty_count_of cdc;
          avg_pref_score = (if assigned_count \<noteq> 0
                            then of_int total_pref_score / of_int assigned_count else 0)
      in \<lparr>flights_total = total_flights,
          flights_assigned = assigned_count,
          assignment_rate = (if total_flights \<noteq> 0 then of_int assigned_count / of_int total_flights else 0),
          avg_duty_per_crew = avg_duty_count,
          max_duty_per_crew = max_duty_count,
          min_duty_per_crew = min_duty_count,
          duty_distribution_range = max_duty_count - min_duty_count,
          compliance_rate = 1,
          avg_preference_score = avg_pref_score,
          fairness_score =
            (if max_duty_count \<noteq> 0
             then 1 - of_int (max_duty_count - min_duty_count) / of_int (max_duty_count + 1)
             else 1)\<rparr>)"

text \<open>
  The total preference score of generate\_roster looks every assigned flight up again by
  its id and reads attributes of the row found (\<^verbatim>\<open>.first().flight_date\<close>), which raises
  when no row is found.
\<close>

fun total_preference_score :: "db \<Rightarrow> pref_map \<Rightarrow> assignment list \<Rightarrow> py_error + int" where
  "total_preference_score d pm [] = Inr 0"
| "total_preference_score d pm (a # as) =
     (if has_crew a then
        (case find (\<lambda>f. flight_id f = a_flight_id a) (flights d) of
           None \<Rightarrow> Inl AttributeError
         | Some f \<Rightarrow>
             (case total_preference_score d pm as of
                Inl e \<Rightarrow> Inl e
              | Inr s \<Rightarrow>
                  Inr (calculate_preference_score (the (a_crew_id a)) (flight_date f) (dep_iata f)
                         (arr_iata f) (flight_no f) pm + s)))
      else total_preference_score d pm as)"

text \<open>
  generate\_roster. \<^verbatim>\<open>date.today()\<close> is the extra first argument. The result also carries
  the final aggregates, which the source keeps in local variables.
\<close>

definition greedy_run ::
  "date \<Rightarrow> db \<Rightarrow> date \<Rightarrow> date \<Rightarrow> rules_engine \<Rightarrow> assignment list \<times> greedy_state" where
  "greedy_run today d period_start period_end rules =
     assign_flights rules
       (build_qualification_map today (crew_qualifications d))
       (build_unavailable_crew_map (unavailable_crew_records d period_start period_end))
       (build_preference_map (filter (preference_current today) (crew_preferences d)))
       (active_crew d) initial_state (period_flights d period_start period_end)"

definition generate_roster ::
  "date \<Rightarrow> db \<Rightarrow> date \<Rightarrow> date \<Rightarrow> rules_engine \<Rightarrow> py_error + (assignment list \<times> kpis)" where
  "generate_roster today d period_start period_end rules =
     (let flight_list = period_flights d period_start period_end;
          pm = build_preference_map (filter (preference_current today) (crew_preferences d));
          (assignments, st) = greedy_run today d period_start period_end rules;
          total_flights = int (length flight_list);
          assigned_count = int (length (filter has_crew assignments))
      in case total_preference_score d pm assignments of
           Inl e \<Rightarrow> Inl e
         | Inr total_pref_score \<Rightarrow>
             Inr (assignments, make_kpis total_flights assigned_count (crew_duty_count st) total_pref_score))"

subsection \<open>Delay handling\<close>

text \<open>
  \<^verbatim>\<open>record_disruption\<close>: the next id is one more than the largest id present; the row is
  added and committed. \<^verbatim>\<open>datetime.utcnow()\<close> is the argument \<open>now\<close>.
\<close>

definition record_disruption ::
  "datetime \<Rightarrow> db \<Rightarrow> string option \<Rightarrow> string \<Rightarrow> date \<Rightarrow> int option \<Rightarrow> int option
     \<Rightarrow> string option \<Rightarrow> string option \<Rightarrow> db" where
  "record_disruption now d fno dtype ddate impact cid rsn res =
     (let next_id = (if disruption_records d = [] then 1
                     else Max (set (map disruption_id (disruption_records d))) + 1)
      in d\<lparr>disruption_records := disruption_records d @
            [\<lparr>disruption_id = next_id, r_flight_no = fno, disruption_type = dtype,
              disruption_date = ddate, impact_duration = impact, r_crew_id = cid,
              reason = rsn, resolution = res, recorded_at = now, resolved_at = None\<rparr>]\<rparr>)"

text \<open>
  Python's range checks: a timedelta holds at most 999999999 days in either direction, and
  the sum of a datetime and a timedelta must fall on an ordinal day from 1 (0001-01-01) to
  3652059 (9999-12-31); outside, the constructor or the addition raises OverflowError.
\<close>

definition timedelta_of_minutes :: "int \<Rightarrow> py_error + timedelta" where
  "timedelta_of_minutes m =
     (let td = timedelta_minutes m in
      if \<bar>td div us_per_day\<bar> \<le> 999999999 then Inr td else Inl OverflowError)"

definition datetime_in_range :: "datetime \<Rightarrow> bool" where
  "datetime_in_range t \<longleftrightarrow> 0 < dt_date t \<and> dt_date t \<le> 3652059"

definition datetime_add :: "datetime \<Rightarrow> timedelta \<Rightarrow> py_error + datetime" where
  "datetime_add t td = (if datetime_in_range (t + td) then Inr (t + td) else Inl OverflowError)"

text \<open>
  The result of propose\_patch\_for\_delay: the dictionary with the key \<^verbatim>\<open>error\<close>, or the
  patch. The two timestamps are kept as datetimes; the source renders them with
  \<^verbatim>\<open>isoformat()\<close>.
\<close>

record delay_patch =
  p_flight_id :: int
  p_flight_no :: string
  new_sched_dep_utc :: datetime
  new_sched_arr_utc :: datetime
  p_feasible :: bool

datatype patch_result = Error string | Patch delay_patch

text \<open>The query: rows with the flight number, latest flight date first, first row.\<close>

definition find_flight_by_no :: "db \<Rightarrow> string \<Rightarrow> flight option" where
  "find_flight_by_no d fno =
     (case sort_key (\<lambda>f. - flight_date f) (filter (\<lambda>f. flight_no f = fno) (flights d)) of
        [] \<Rightarrow> None
      | f # _ \<Rightarrow> Some f)"

definition propose_patch_for_delay ::
  "datetime \<Rightarrow> db \<Rightarrow> string \<Rightarrow> int \<Rightarrow> rules_engine \<Rightarrow> db \<times> (py_error + patch_result)" where
  "propose_patch_for_delay now d fno delay_minutes rules =
     (case find_flight_by_no d fno of
        None \<Rightarrow> (d, Inr (Error ''flight_not_found''))
      | Some f \<Rightarrow>
          (let d' = record_disruption now d (Some fno) ''delay'' (flight_date f)
                      (Some delay_minutes) None (Some ''Flight delayed'') None
           in case timedelta_of_minutes delay_minutes of
                Inl e \<Rightarrow> (d', Inl e)
              | Inr td \<Rightarrow>
                  (case datetime_add (sched_dep_utc f) td of
                     Inl e \<Rightarrow> (d', Inl e)
                   | Inr new_dep \<Rightarrow>
                       (case datetime_add (sched_arr_utc f) td of
                          Inl e \<Rightarrow> (d', Inl e)
                        | Inr new_arr \<Rightarrow>
                            (d', Inr (Patch
                               \<lparr>p_flight_id = flight_id f, p_flight_no = flight_no f,
                                new_sched_dep_utc = new_dep, new_sched_arr_utc = new_arr,
                                p_feasible = duty_duration_ok rules new_dep new_arr\<rparr>))))))"

section \<open>ConstraintSolver (app/optimizer/or\_tools\_opt.py)\<close>

text \<open>
  The CP-SAT model the optimizer builds. A decision variable is named by its key
  \<^verbatim>\<open>(flight_id, crew_id)\<close> in \<^verbatim>\<open>assignment_vars\<close>; both ids are primary keys. Every
  constraint the code adds is a sum of variables compared with a constant.
\<close>

type_synonym var = "int \<times> int"

datatype constraint = LinEq "var list" int | LinLe "var list" int

record cp_model =
  bool_vars :: "var list"
  constraints :: "constraint list"
  objective :: "(int \<times> var) list option"

text \<open>
  \<^verbatim>\<open>cp_model.CpSolver()\<close> with its default parameters: OR-Tools sets no time limit unless
  \<^verbatim>\<open>parameters.max_time_in_seconds\<close> is assigned (\<open>None\<close> here).
\<close>

record cp_solver =
  max_time_in_seconds :: "rat option"

datatype cp_status = UNKNOWN | MODEL_INVALID | FEASIBLE | INFEASIBLE | OPTIMAL

definition CpModel :: cp_model where
  "CpModel = \<lparr>bool_vars = [], constraints = [], objective = None\<rparr>"

definition CpSolver :: cp_solver where
  "CpSolver = \<lparr>max_time_in_seconds = None\<rparr>"

text \<open>
  The optimizer object after \<^verbatim>\<open>__init__\<close>. The session and the rules it also stores are
  passed to optimize\_roster directly.
\<close>

record optimizer =
  opt_model :: cp_model
  opt_solver :: cp_solver

definition CrewRosteringOptimizer :: optimizer where
  "CrewRosteringOptimizer = \<lparr>opt_model = CpModel, opt_solver = CpSolver\<rparr>"

text \<open>When a valuation of the variables satisfies a constraint, and a whole model.\<close>

fun holds :: "(var \<Rightarrow> int) \<Rightarrow> constraint \<Rightarrow> bool" where
  "holds v (LinEq xs k) = (sum_list (map v xs) = k)"
| "holds v (LinLe xs k) = (sum_list (map v xs) \<le> k)"

definition feasible :: "cp_model \<Rightarrow> (var \<Rightarrow> int) \<Rightarrow> bool" where
  "feasible m v =
     (list_all (\<lambda>x. v x = 0 \<or> v x = 1) (bool_vars m) \<and> list_all (holds v) (constraints m))"

text \<open>
  OR-Tools itself is outside the repository: a solver is any function from the solver
  object and the model to a status and a valuation. It is sound when a status of
  OPTIMAL or FEASIBLE comes with a valuation that satisfies the model.
\<close>

type_synonym solver = "cp_solver \<Rightarrow> cp_model \<Rightarrow> cp_status \<times> (var \<Rightarrow> int)"

definition solver_sound :: "solver \<Rightarrow> bool" where
  "solver_sound solve =
     (\<forall>s m. case solve s m of (st, v) \<Rightarrow> (st = OPTIMAL \<or> st = FEASIBLE) \<longrightarrow> feasible m v)"

text \<open>The keys of a dictionary filled in the order of \<open>xs\<close>: first occurrences.\<close>

definition first_occurrences :: "'a list \<Rightarrow> 'a list" where
  "first_occurrences xs = rev (remdups (rev xs))"

definition create_assignment_variables :: "flight list \<Rightarrow> crew list \<Rightarrow> var list" where
  "create_assignment_variables flight_list crew_list =
     concat (map (\<lambda>f. map (\<lambda>c. (flight_id f, crew_id c)) crew_list) flight_list)"

definition in_qual_map :: "qual_map \<Rightarrow> int \<Rightarrow> string \<Rightarrow> bool" where
  "in_qual_map qm cid code = (case qm cid of None \<Rightarrow> False | Some quals \<Rightarrow> quals code \<noteq> None)"

definition add_qualification_constraints ::
  "flight list \<Rightarrow> crew list \<Rightarrow> qual_map \<Rightarrow> constraint list" where
  "add_qualification_constraints flight_list crew_list qm =
     concat (map (\<lambda>f. concat (map (\<lambda>c.
        if \<not> in_qual_map qm (crew_id c) (aircraft_code f)
        then [LinEq [(flight_id f, crew_id c)] 0] else []) crew_list)) flight_list)"

definition crew_unavailable :: "unavailable_map \<Rightarrow> int \<Rightarrow> date \<Rightarrow> bool" where
  "crew_unavailable um cid fdate =
     (case um cid of
        None \<Rightarrow> False
      | Some records \<Rightarrow>
          list_ex (\<lambda>r. unavailable_from r \<le> fdate \<and> fdate \<le> unavailable_to r) records)"

definition add_availability_constraints ::
  "flight list \<Rightarrow> crew list \<Rightarrow> unavailable_map \<Rightarrow> constraint list" where
  "add_availability_constraints flight_list crew_list um =
     concat (map (\<lambda>f. concat (map (\<lambda>c.
        if crew_unavailable um (crew_id c) (flight_date f)
        then [LinEq [(flight_id f, crew_id c)] 0] else []) crew_list)) flight_list)"

text \<open>
  First one constraint per flight (exactly one crew), then one per crew id and flight
  date (at most one flight that day), in the order of the dictionary
  \<^verbatim>\<open>crew_flight_dates\<close>.
\<close>

definition add_rules_constraints :: "flight list \<Rightarrow> crew list \<Rightarrow> constraint list" where
  "add_rules_constraints flight_list crew_list =
     map (\<lambda>f. LinEq (map (\<lambda>c. (flight_id f, crew_id c)) crew_list) 1) flight_list @
     concat (map (\<lambda>cid. map (\<lambda>fdate.
        LinLe (concat (map (\<lambda>f. map (\<lambda>c. (flight_id f, crew_id c))
                 (filter (\<lambda>c. crew_id c = cid) crew_list))
                 (filter (\<lambda>f. flight_date f = fdate) flight_list))) 1)
        (first_occurrences (map flight_date flight_list)))
        (if flight_list = [] then [] else first_occurrences (map crew_id crew_list)))"

definition add_fairness_constraints :: "crew list \<Rightarrow> constraint list" where
  "add_fairness_constraints crew_list = []"

text \<open>\<^verbatim>\<open>_calculate_preference_score\<close>: the same loop as in simple\_opt, on a flight row.\<close>

definition calculate_preference_score_of :: "int \<Rightarrow> flight \<Rightarrow> pref_map \<Rightarrow> int" where
  "calculate_preference_score_of cid f pm =
     (let prefs = dict_get pm cid [] in
      foldl (\<lambda>score pref. score +
               preference_term (flight_date f) (dep_iata f) (arr_iata f) (flight_no f) pref) 0 prefs)"

definition set_objective :: "flight list \<Rightarrow> crew list \<Rightarrow> pref_map \<Rightarrow> (int \<times> var) list option" where
  "set_objective flight_list crew_list pm =
     (let terms = concat (map (\<lambda>f. concat (map (\<lambda>c.
            let pref_score = calculate_preference_score_of (crew_id c) f pm in
            if pref_score \<noteq> 0 then [(pref_score, (flight_id f, crew_id c))] else [])
            crew_list)) flight_list)
      in if terms \<noteq> [] then Some terms else None)"

text \<open>The model of optimize\_roster just before \<^verbatim>\<open>Solve\<close> is called.\<close>

definition roster_model :: "optimizer \<Rightarrow> date \<Rightarrow> db \<Rightarrow> date \<Rightarrow> date \<Rightarrow> cp_model" where
  "roster_model self today d period_start period_end =
     (let flight_list = period_flights d period_start period_end;
          crew_list = active_crew d;
          qm = build_qualification_map today (crew_qualifications d);
          pm = build_preference_map (filter (preference_current today) (crew_preferences d));
          um = build_unavailable_crew_map (unavailable_crew_records d period_start period_end);
          m = opt_model self;
          obj = set_objective flight_list crew_list pm
      in \<lparr>bool_vars = bool_vars m @ create_assignment_variables flight_list crew_list,
          constraints = constraints m @
            add_qualification_constraints flight_list crew_list qm @
            add_availability_constraints flight_list crew_list um @
            add_rules_constraints flight_list crew_list @
            add_fairness_constraints crew_list,
          objective = (case obj of None \<Rightarrow> objective m | Some terms \<Rightarrow> Some terms)\<rparr>)"

text \<open>\_process\_solution: the decoder. \<open>v\<close> is \<^verbatim>\<open>self.solver.Value\<close>.\<close>

fun decode_flights ::
  "(var \<Rightarrow> int) \<Rightarrow> crew list \<Rightarrow> (int \<times> int) list \<Rightarrow> flight list
     \<Rightarrow> assignment list \<times> (int \<times> int) list" where
  "decode_flights v crew_list cdc [] = ([], cdc)"
| "decode_flights v crew_list cdc (f # fs) =
     (case find (\<lambda>c. v (flight_id f, crew_id c) = 1) crew_list of
        Some c \<Rightarrow>
          (case decode_flights v crew_list
                  (AList.update (crew_id c) (dict_get (map_of cdc) (crew_id c) 0 + 1) cdc) fs of
             (as, cdc') \<Rightarrow> (assigned_entry c f # as, cdc'))
      | None \<Rightarrow>
          (case decode_flights v crew_list cdc fs of
             (as, cdc') \<Rightarrow> (unassigned_entry f # as, cdc')))"

definition solution_preference_score :: "flight list \<Rightarrow> pref_map \<Rightarrow> assignment list \<Rightarrow> int" where
  "solution_preference_score flight_list pm assignments =
     foldl (\<lambda>total_pref_score a.
        if has_crew a then
          (case find (\<lambda>f. flight_id f = a_flight_id a) flight_list of
             Some f \<Rightarrow> total_pref_score + calculate_preference_score_of (the (a_crew_id a)) f pm
           | None \<Rightarrow> total_pref_score)
        else total_pref_score) 0 assignments"

definition process_solution ::
  "(var \<Rightarrow> int) \<Rightarrow> flight list \<Rightarrow> crew list \<Rightarrow> pref_map \<Rightarrow> assignment list \<times> kpis" where
  "process_solution v flight_list crew_list pm =
     (let (assignments, cdc) = decode_flights v crew_list [] flight_list;
          total_flights = int (length flight_list);
          assigned_count = int (length (filter has_crew assignments));
          total_pref_score = solution_preference_score flight_list pm assignments
      in (assignments, make_kpis total_flights assigned_count cdc total_pref_score))"

definition optimize_roster ::
  "solver \<Rightarrow> optimizer \<Rightarrow> date \<Rightarrow> db \<Rightarrow> rules_engine \<Rightarrow> date \<Rightarrow> date
     \<Rightarrow> py_error + (assignment list \<times> kpis)" where
  "optimize_roster solve self today d rules period_start period_end =
     (let flight_list = period_flights d period_start period_end;
          crew_list = active_crew d;
          pm = build_preference_map (filter (preference_current today) (crew_preferences d));
          (status, v) = solve (opt_solver self) (roster_model self today d period_start period_end)
      in if status = OPTIMAL \<or> status = FEASIBLE
         then Inr (process_solution v flight_list crew_list pm)
         else generate_roster today d period_start period_end rules)"

definition generate_roster_with_or_tools ::
  "solver \<Rightarrow> date \<Rightarrow> db \<Rightarrow> date \<Rightarrow> date \<Rightarrow> rules_engine \<Rightarrow> py_error + (assignment list \<times> kpis)" where
  "generate_roster_with_or_tools solve today d period_start period_end rules =
     optimize_roster solve CrewRosteringOptimizer today d rules period_start period_end"

section \<open>Committing a roster (app/services/orchestrator.py)\<close>

text \<open>
  The dictionary \<^verbatim>\<open>crew_duties\<close>: the assigned entries grouped by crew id, in the order in
  which the crew ids first occur.
\<close>

definition group_by_crew :: "assignment list \<Rightarrow> (int \<times> assignment list) list" where
  "group_by_crew assignments =
     foldl (\<lambda>crew_duties a.
        if has_crew a \<and> \<not> (a_note a = Some ''UNASSIGNED'')
        then (let cid = the (a_crew_id a) in
              AList.update cid (dict_get (map_of crew_duties) cid [] @ [a]) crew_duties)
        else crew_duties) [] assignments"

definition next_duty_id :: "duty_period list \<Rightarrow> int" where
  "next_duty_id dps = (if dps = [] then 1 else Max (set (map duty_id dps)) + 1)"

text \<open>The body of the inner loop: one duty period and one duty flight per assignment.\<close>

definition save_assignment :: "int \<Rightarrow> string \<Rightarrow> db \<Rightarrow> assignment \<Rightarrow> db" where
  "save_assignment cid base d a =
     (case find (\<lambda>f. flight_id f = a_flight_id a) (flights d) of
        None \<Rightarrow> d
      | Some fl \<Rightarrow>
          (let next_id = next_duty_id (duty_periods d) in
           d\<lparr>duty_periods := duty_periods d @
                [\<lparr>duty_id = next_id, d_crew_id = cid, duty_start_utc = a_duty_start_utc a,
                  duty_end_utc = a_duty_end_utc a, d_base_iata = base\<rparr>],
             duty_flights := duty_flights d @
                [\<lparr>l_duty_id = next_id, l_flight_id = a_flight_id a, leg_seq = 1\<rparr>]\<rparr>))"

definition crew_base :: "db \<Rightarrow> int \<Rightarrow> assignment \<Rightarrow> string" where
  "crew_base d cid first_assignment =
     (case find (\<lambda>c. crew_id c = cid) (crews d) of
        Some c \<Rightarrow> base_iata c
      | None \<Rightarrow>
          (case find (\<lambda>f. flight_id f = a_flight_id first_assignment) (flights d) of
             Some f \<Rightarrow> dep_iata f
           | None \<Rightarrow> ''DEL''))"

definition save_crew_duties :: "db \<Rightarrow> int \<times> assignment list \<Rightarrow> db" where
  "save_crew_duties d entry =
     (case entry of
        (cid, []) \<Rightarrow> d
      | (cid, first_assignment # rest) \<Rightarrow>
          foldl (save_assignment cid (crew_base d cid first_assignment)) d
            (first_assignment # rest))"

text \<open>
  save\_assignments\_to\_duty\_tables commits twice. The result is the database as it
  stands after each commit, in order.
\<close>

definition clear_duty_tables :: "db \<Rightarrow> db" where
  "clear_duty_tables d = d\<lparr>duty_flights := [], duty_periods := []\<rparr>"

definition save_assignments_to_duty_tables :: "db \<Rightarrow> assignment list \<Rightarrow> db list" where
  "save_assignments_to_duty_tables d assignments =
     (let d1 = clear_duty_tables d;
          d2 = foldl save_crew_duties d1 (group_by_crew assignments)
      in [d1, d2])"

section \<open>HardSoftRulesEngine (app/rules/hard\_soft\_engine.py)\<close>






section \<open>ConflictDetector (app/optimizer/conflict\_detector.py)\<close>




















section \<open>Properties of a roster\<close>

definition in_period :: "date \<Rightarrow> date \<Rightarrow> flight \<Rightarrow> bool" where
  "in_period period_start period_end f \<longleftrightarrow> period_start \<le> flight_date f \<and> flight_date f \<le> period_end"

definition entry_for :: "assignment \<Rightarrow> bool" where
  "entry_for a \<longleftrightarrow> (a_crew_id a \<noteq> None \<and> a_note a = None) \<or>
                   (a_crew_id a = None \<and> a_note a = Some ''UNASSIGNED'')"

definition lists_each_once :: "db \<Rightarrow> date \<Rightarrow> date \<Rightarrow> assignment list \<Rightarrow> bool" where
  "lists_each_once d period_start period_end as \<longleftrightarrow>
     map a_flight_id as = map flight_id (period_flights d period_start period_end) \<and>
     (\<forall>i. count_list (map a_flight_id as) i =
           count_list (map flight_id (filter (in_period period_start period_end) (flights d))) i) \<and>
     (distinct (map flight_id (flights d)) \<longrightarrow>
        (\<forall>f\<in>set (flights d). in_period period_start period_end f \<longrightarrow>
            count_list (map a_flight_id as) (flight_id f) = 1)) \<and>
     (\<forall>a\<in>set as. entry_for a)"

definition no_approved_absence :: "db \<Rightarrow> int \<Rightarrow> date \<Rightarrow> bool" where
  "no_approved_absence d cid fdate \<longleftrightarrow>
     \<not> list_ex (\<lambda>r. v_crew_id r = cid \<and> v_status r = ''approved'' \<and>
                    unavailable_from r \<le> fdate \<and> fdate \<le> unavailable_to r) (crew_availabilities d)"

definition respects_availability :: "db \<Rightarrow> assignment list \<Rightarrow> flight list \<Rightarrow> bool" where
  "respects_availability d as fs \<longleftrightarrow>
     list_all2 (\<lambda>a f. a_flight_id a = flight_id f \<and>
        (case a_crew_id a of None \<Rightarrow> True | Some cid \<Rightarrow> no_approved_absence d cid (flight_date f)))
       as fs"

definition only_approved :: "db \<Rightarrow> db" where
  "only_approved d =
     d\<lparr>crew_availabilities := filter (\<lambda>r. v_status r = ''approved'') (crew_availabilities d)\<rparr>"

definition holds_valid_qualification :: "db \<Rightarrow> int \<Rightarrow> flight \<Rightarrow> bool" where
  "holds_valid_qualification d cid f \<longleftrightarrow>
     list_ex (\<lambda>q. q_crew_id q = cid \<and> q_aircraft_code q = aircraft_code f \<and>
                  (case expires_on q of None \<Rightarrow> True | Some e \<Rightarrow> flight_date f \<le> e))
       (crew_qualifications d)"

definition fairness_as_specified :: "kpis \<Rightarrow> bool" where
  "fairness_as_specified k \<longleftrightarrow>
     fairness_score k =
       1 - of_int (max_duty_per_crew k - min_duty_per_crew k) / of_int (max_duty_per_crew k + 1) \<and>
     0 \<le> fairness_score k \<and> fairness_score k \<le> 1 \<and>
     (if max_duty_per_crew k = 0 \<or> max_duty_per_crew k = min_duty_per_crew k
      then fairness_score k = 1 else True)"

definition shifted :: "datetime \<Rightarrow> int \<Rightarrow> datetime" where
  "shifted t m = t + m * us_per_minute"






text \<open>
  What a commit writes, read off the assignment list. An entry names a crew when its crew
  id is neither missing nor 0 and it is not noted UNASSIGNED. The crews named are taken in
  the order in which they first occur; each crew's entries whose flight exists follow in
  list order, with the base of the crew row, else the departure airport of the flight of
  the crew's first entry, else DEL.
\<close>

definition names_a_crew :: "assignment \<Rightarrow> bool" where
  "names_a_crew a \<longleftrightarrow>
     (case a_crew_id a of None \<Rightarrow> False | Some cid \<Rightarrow> cid \<noteq> 0) \<and> a_note a \<noteq> Some ''UNASSIGNED''"

definition names_crew :: "int \<Rightarrow> assignment \<Rightarrow> bool" where
  "names_crew cid a \<longleftrightarrow> names_a_crew a \<and> a_crew_id a = Some cid"

definition crews_named :: "assignment list \<Rightarrow> int list" where
  "crews_named assignments =
     first_occurrences (map (\<lambda>a. the (a_crew_id a)) (filter names_a_crew assignments))"

definition flight_known :: "db \<Rightarrow> assignment \<Rightarrow> bool" where
  "flight_known d a \<longleftrightarrow> list_ex (\<lambda>f. flight_id f = a_flight_id a) (flights d)"

definition written :: "db \<Rightarrow> assignment \<Rightarrow> bool" where
  "written d a \<longleftrightarrow> names_a_crew a \<and> flight_known d a"

definition base_for :: "db \<Rightarrow> int \<Rightarrow> assignment list \<Rightarrow> string" where
  "base_for d cid assignments =
     (case filter (\<lambda>c. crew_id c = cid) (crews d) of
        c # _ \<Rightarrow> base_iata c
      | [] \<Rightarrow>
          (case filter (\<lambda>f. flight_id f = a_flight_id (hd (filter (names_crew cid) assignments)))
                  (flights d) of
             f # _ \<Rightarrow> dep_iata f
           | [] \<Rightarrow> ''DEL''))"

definition saved_entries :: "db \<Rightarrow> assignment list \<Rightarrow> (int \<times> string \<times> assignment) list" where
  "saved_entries d assignments =
     concat (map (\<lambda>cid.
        map (\<lambda>a. (cid, base_for d cid assignments, a))
          (filter (\<lambda>a. names_crew cid a \<and> flight_known d a) assignments))
        (crews_named assignments))"

text \<open>
  The crews named with their entries, and what one row pair of the duty tables holds
  beside its id, against what an assignment asks for.
\<close>

definition crew_groups :: "assignment list \<Rightarrow> (int \<times> assignment list) list" where
  "crew_groups assignments =
     map (\<lambda>cid. (cid, filter (names_crew cid) assignments)) (crews_named assignments)"

definition row_content ::
  "duty_period \<times> duty_flight \<Rightarrow> int \<times> datetime \<times> datetime \<times> string \<times> int \<times> int" where
  "row_content pl =
     (case pl of (p, l) \<Rightarrow>
        (d_crew_id p, duty_start_utc p, duty_end_utc p, d_base_iata p, l_flight_id l, leg_seq l))"

definition expected_content ::
  "db \<Rightarrow> assignment list \<Rightarrow> assignment \<Rightarrow> int \<times> datetime \<times> datetime \<times> string \<times> int \<times> int" where
  "expected_content d assignments a =
     (the (a_crew_id a), a_duty_start_utc a, a_duty_end_utc a,
      base_for d (the (a_crew_id a)) assignments, a_flight_id a, 1)"

definition period_row :: "nat \<times> int \<times> string \<times> assignment \<Rightarrow> duty_period" where
  "period_row e =
     (case e of (i, cid, base, a) \<Rightarrow>
        \<lparr>duty_id = int i, d_crew_id = cid, duty_start_utc = a_duty_start_utc a,
         duty_end_utc = a_duty_end_utc a, d_base_iata = base\<rparr>)"

definition flight_row :: "nat \<times> int \<times> string \<times> assignment \<Rightarrow> duty_flight" where
  "flight_row e =
     (case e of (i, cid, base, a) \<Rightarrow>
        \<lparr>l_duty_id = int i, l_flight_id = a_flight_id a, leg_seq = 1\<rparr>)"

definition stored :: "db \<Rightarrow> (int \<times> string \<times> assignment) list \<Rightarrow> db" where
  "stored d es =
     d\<lparr>duty_periods := map period_row (enumerate 1 es),
       duty_flights := map flight_row (enumerate 1 es)\<rparr>"

section \<open>Example data\<close>

text \<open>Day 739252 is Wednesday 2025-01-01.\<close>

definition positive_counts :: "(int \<times> int) list \<Rightarrow> bool" where
  "positive_counts cdc \<longleftrightarrow> (\<forall>n\<in>set (map snd cdc). 1 \<le> n)"

definition example_rules :: rules_engine where
  "example_rules =
     \<lparr>max_duty_per_day = 10 * us_per_hour, min_rest_after_duty = 12 * us_per_hour,
      max_fdp = 13 * us_per_hour, max_duty_per_week = None, max_duty_per_month = None,
      max_consecutive_duty_days = None, min_rest_between_duties = None,
      max_night_duties_per_week = None\<rparr>"

definition example_crew :: "int \<Rightarrow> string \<Rightarrow> crew" where
  "example_crew cid nm =
     \<lparr>crew_id = cid, emp_code = nm, name = nm, rank = ''Captain'', base_iata = ''DEL'',
      status = ''Active''\<rparr>"

definition example_flight :: "int \<Rightarrow> date \<Rightarrow> int \<Rightarrow> int \<Rightarrow> flight" where
  "example_flight fid fdate dep_hour arr_hour =
     \<lparr>flight_id = fid, flight_no = ''6E101'', flight_date = fdate, dep_iata = ''DEL'',
      arr_iata = ''BOM'', sched_dep_utc = mk_datetime fdate dep_hour 0,
      sched_arr_utc = mk_datetime fdate arr_hour 0, aircraft_code = ''A320''\<rparr>"

definition example_db :: "flight list \<Rightarrow> crew list \<Rightarrow> crew_qualification list \<Rightarrow> crew_availability list \<Rightarrow> db" where
  "example_db fs cs qs avs =
     \<lparr>flights = fs, crews = cs, crew_qualifications = qs, crew_preferences = [],
      crew_availabilities = avs, disruption_records = [], duty_periods = [], duty_flights = []\<rparr>"

definition streak_db :: db where
  "streak_db = example_db
     [example_flight 1 739252 8 10, example_flight 2 739253 8 10]
     [example_crew 1 ''A'']
     [\<lparr>q_crew_id = 1, q_aircraft_code = ''A320'', qualified_on = 730000, expires_on = None\<rparr>]
     []"

definition expiry_db :: db where
  "expiry_db = example_db
     [example_flight 1 739252 8 10]
     [example_crew 1 ''A'']
     [\<lparr>q_crew_id = 1, q_aircraft_code = ''A320'', qualified_on = 730000, expires_on = Some 739251\<rparr>]
     []"

definition absence_db :: db where
  "absence_db = example_db
     [example_flight 1 739252 8 10]
     [example_crew 1 ''A'', example_crew 2 ''B'']
     [\<lparr>q_crew_id = 1, q_aircraft_code = ''A320'', qualified_on = 730000, expires_on = None\<rparr>,
      \<lparr>q_crew_id = 2, q_aircraft_code = ''A320'', qualified_on = 730000, expires_on = None\<rparr>]
     [\<lparr>v_crew_id = 1, availability_type = ''leave'', unavailable_from = 739251,
       unavailable_to = 739253, v_status = ''approved''\<rparr>,
      \<lparr>v_crew_id = 2, availability_type = ''leave'', unavailable_from = 739251,
       unavailable_to = 739253, v_status = ''pending''\<rparr>]"

definition pick :: "var \<Rightarrow> var \<Rightarrow> int" where
  "pick x y = (if y = x then 1 else 0)"

definition example_solver :: "(var \<Rightarrow> int) \<Rightarrow> solver" where
  "example_solver v s m = (if feasible m v then (OPTIMAL, v) else (INFEASIBLE, v))"

definition failing_solver :: solver where
  "failing_solver s m = (UNKNOWN, (\<lambda>x. 0))"

definition uneven_db :: db where
  "uneven_db = example_db
     [example_flight 1 739252 8 10, example_flight 2 739252 9 11, example_flight 3 739253 8 10]
     [example_crew 1 ''A'', example_crew 2 ''B'']
     [\<lparr>q_crew_id = 1, q_aircraft_code = ''A320'', qualified_on = 730000, expires_on = None\<rparr>,
      \<lparr>q_crew_id = 2, q_aircraft_code = ''A320'', qualified_on = 730000, expires_on = None\<rparr>]
     []"


definition example_duty :: "int \<Rightarrow> int \<Rightarrow> date \<Rightarrow> int \<Rightarrow> int \<Rightarrow> duty_period" where
  "example_duty did cid dd start_hour end_hour =
     \<lparr>duty_id = did, d_crew_id = cid, duty_start_utc = mk_datetime dd start_hour 0,
      duty_end_utc = mk_datetime dd end_hour 0, d_base_iata = ''DEL''\<rparr>"

definition committed_db :: "duty_period list \<Rightarrow> db" where
  "committed_db dps =
     (example_db [example_flight 1 739252 8 10, example_flight 2 739252 9 11]
        [example_crew 1 ''A'']
        [\<lparr>q_crew_id = 1, q_aircraft_code = ''A320'', qualified_on = 730000, expires_on = None\<rparr>] [])
     \<lparr>duty_periods := dps,
      duty_flights := [\<lparr>l_duty_id = 1, l_flight_id = 1, leg_seq = 1\<rparr>,
                       \<lparr>l_duty_id = 2, l_flight_id = 2, leg_seq = 1\<rparr>]\<rparr>"



definition old_roster_db :: db where
  "old_roster_db = committed_db [example_duty 1 1 739000 8 10, example_duty 2 1 739000 9 11]"


definition roster_to_commit :: "assignment list" where
  "roster_to_commit =
     [assigned_entry (example_crew 1 ''A'') (example_flight 1 739252 8 10),
      assigned_entry (example_crew 2 ''B'') (example_flight 2 739252 9 11),
      unassigned_entry (example_flight 2 739252 9 11),
      assigned_entry (example_crew 1 ''A'') (example_flight 2 739252 9 11),
      assigned_entry (example_crew 1 ''A'') (example_flight 9 739252 12 13)]"

section \<open>Night duties\<close>

lemma night_end_before_night_start: "replace_hour t 6 < replace_hour t 22"
  by (simp add: replace_hour_def us_per_hour_def)

lemma is_night_duty_hours:
  "is_night_duty dstart dend \<longleftrightarrow>
     dt_hour dstart \<ge> 22 \<or> dt_hour dstart < 6 \<or> dt_hour dend \<ge> 22 \<or> dt_hour dend < 6"
  using night_end_before_night_start [of dstart]
  by (auto simp add: is_night_duty_def Let_def)

text \<open>
  C5: a duty from 21:00 to 07:00 of the next day spans the whole night window
  22:00 to 06:00, yet \<^const>\<open>is_night_duty\<close> answers False: neither end point has a night
  hour, and the third test asks for 06:00 to be later than 22:00 of the same day.
  Day 739252 is 2025-01-01.
\<close>

theorem is_night_duty_spanning_window:
  "mk_datetime 739252 21 0 \<le> mk_datetime 739253 7 0 \<and>
   dt_date (mk_datetime 739252 21 0) = 739252 \<and> dt_hour (mk_datetime 739252 21 0) = 21 \<and>
   dt_date (mk_datetime 739253 7 0) = 739253 \<and> dt_hour (mk_datetime 739253 7 0) = 7 \<and>
   \<not> is_night_duty (mk_datetime 739252 21 0) (mk_datetime 739253 7 0)"
  by (simp add: is_night_duty_def mk_datetime_def dt_date_def dt_hour_def replace_hour_def
      us_per_day_def us_per_hour_def us_per_minute_def)

section \<open>The assignment list\<close>

lemma build_unavailable_crew_map_lookup:
  "build_unavailable_crew_map records cid =
     (if \<exists>r\<in>set records. v_crew_id r = cid
      then Some (filter (\<lambda>r. v_crew_id r = cid) records) else None)"
  unfolding build_unavailable_crew_map_def
  by (induction records rule: rev_induct) (auto simp: dict_get_def)

lemma is_crew_available_iff:
  "is_crew_available cid fdate (build_unavailable_crew_map records) \<longleftrightarrow>
     \<not> (\<exists>r\<in>set records. v_crew_id r = cid \<and> unavailable_from r \<le> fdate \<and> fdate \<le> unavailable_to r)"
  by (auto simp: is_crew_available_def build_unavailable_crew_map_lookup list_ex_iff)

lemma crew_unavailable_conv: "crew_unavailable um cid fdate \<longleftrightarrow> \<not> is_crew_available cid fdate um"
  by (simp add: crew_unavailable_def is_crew_available_def split: option.splits)

lemma period_availability:
  assumes "period_start \<le> fdate" "fdate \<le> period_end"
  shows "is_crew_available cid fdate
           (build_unavailable_crew_map (unavailable_crew_records d period_start period_end)) \<longleftrightarrow>
         \<not> (\<exists>r\<in>set (crew_availabilities d). v_crew_id r = cid \<and> v_status r = ''approved'' \<and>
               unavailable_from r \<le> fdate \<and> fdate \<le> unavailable_to r)"
  using assms by (auto simp: is_crew_available_iff unavailable_crew_records_def)

lemma build_qualification_map_sound:
  "build_qualification_map today quals cid = Some m \<Longrightarrow> m code = Some q \<Longrightarrow>
     q \<in> set quals \<and> q_crew_id q = cid \<and> q_aircraft_code q = code \<and> qualification_current today q"
  unfolding build_qualification_map_def
proof (induction quals arbitrary: m rule: rev_induct)
  case Nil
  then show ?case by simp
next
  case (snoc x xs)
  then show ?case
    by (auto simp: dict_get_def split: if_splits option.splits)
qed

lemma qualified_has_record:
  assumes "is_crew_qualified_for_flight cid f (build_qualification_map today quals) fdate"
  shows "\<exists>q\<in>set quals. q_crew_id q = cid \<and> q_aircraft_code q = aircraft_code f \<and>
           (case expires_on q of None \<Rightarrow> True | Some e \<Rightarrow> fdate \<le> e)"
proof -
  from assms obtain m q where m: "build_qualification_map today quals cid = Some m"
      and q: "m (aircraft_code f) = Some q"
      and e: "case expires_on q of None \<Rightarrow> True | Some e \<Rightarrow> \<not> e < fdate"
    by (auto simp: is_crew_qualified_for_flight_def dict_get_def split: option.splits if_splits)
  from build_qualification_map_sound [OF m q] e show ?thesis
    by (auto split: option.splits)
qed

lemma crew_passes_checks:
  "crew_passes rules qm um st f c \<Longrightarrow>
     is_crew_qualified_for_flight (crew_id c) f qm (flight_date f) \<and>
     is_crew_available (crew_id c) (flight_date f) um"
  by (simp add: crew_passes_def Let_def split: if_splits)

lemma assign_flight_cases:
  assumes "assign_flight rules qm um pm crew_list st f = (a, st')"
  shows "(a = unassigned_entry f \<and> st' = st) \<or>
         (\<exists>c\<in>set crew_list. crew_passes rules qm um st f c \<and> a = assigned_entry c f \<and>
            st' = update_crew_history st (crew_id c) (sched_dep_utc f) (sched_arr_utc f)
                    (dict_get (crew_consecutive_days st) (crew_id c) 0)
                    (dict_get (crew_night_duties st) (crew_id c) 0))"
proof -
  define scored where "scored =
     map (\<lambda>(c, pref_score, duty_count, consecutive_count, night_count).
            (c, calculate_multi_objective_score (crew_id c) f pm (crew_duty_count st)
                  (crew_consecutive_days st) (crew_night_duties st)
                  (avg_duty_count_of (crew_duty_count st)),
             pref_score, duty_count, consecutive_count, night_count))
         (eligible_crew rules qm um pm st crew_list f)"
  define sorted_crew where "sorted_crew = sort_key (\<lambda>x. - fst (snd x)) scored"
  have mem: "\<And>c ms ps dc cc nc. (c, ms, ps, dc, cc, nc) \<in> set sorted_crew \<Longrightarrow>
      c \<in> set crew_list \<and> crew_passes rules qm um st f c \<and>
      cc = dict_get (crew_consecutive_days st) (crew_id c) 0 \<and>
      nc = dict_get (crew_night_duties st) (crew_id c) 0"
    unfolding sorted_crew_def scored_def eligible_crew_def by auto
  show ?thesis
  proof (cases sorted_crew)
    case Nil
    with assms show ?thesis
      by (simp add: assign_flight_def Let_def sorted_crew_def scored_def)
  next
    case (Cons x xs)
    obtain c ms ps dc cc nc where x: "x = (c, ms, ps, dc, cc, nc)"
      by (cases x) auto
    have "(c, ms, ps, dc, cc, nc) \<in> set sorted_crew" using Cons x by simp
    from mem [OF this] Cons x assms show ?thesis
      by (auto simp add: assign_flight_def Let_def sorted_crew_def scored_def)
  qed
qed

lemma assign_flights_entries:
  "assign_flights rules qm um pm crew_list st fs = (as, st') \<Longrightarrow>
     list_all2 (\<lambda>a f. a = unassigned_entry f \<or>
        (\<exists>c\<in>set crew_list. a = assigned_entry c f \<and>
           is_crew_qualified_for_flight (crew_id c) f qm (flight_date f) \<and>
           is_crew_available (crew_id c) (flight_date f) um)) as fs"
proof (induction fs arbitrary: st as st')
  case Nil
  then show ?case by simp
next
  case (Cons f fs)
  obtain a st1 where a: "assign_flight rules qm um pm crew_list st f = (a, st1)"
    by (cases "assign_flight rules qm um pm crew_list st f") auto
  obtain as1 st2 where r: "assign_flights rules qm um pm crew_list st1 fs = (as1, st2)"
    by (cases "assign_flights rules qm um pm crew_list st1 fs") auto
  from Cons.prems a r have as: "as = a # as1" by simp
  from assign_flight_cases [OF a] have
    "a = unassigned_entry f \<or>
        (\<exists>c\<in>set crew_list. a = assigned_entry c f \<and>
           is_crew_qualified_for_flight (crew_id c) f qm (flight_date f) \<and>
           is_crew_available (crew_id c) (flight_date f) um)"
    using crew_passes_checks by blast
  with Cons.IH [OF r] as show ?case by simp
qed

lemma entries_flight_ids:
  "list_all2 (\<lambda>a f. a = unassigned_entry f \<or> (\<exists>c\<in>set crew_list. a = assigned_entry c f \<and> P c f)) as fs \<Longrightarrow>
     map a_flight_id as = map flight_id fs"
  by (induction as fs rule: list_all2_induct) (auto simp: unassigned_entry_def assigned_entry_def)

lemma total_preference_score_returns:
  "\<forall>a\<in>set as. \<exists>f\<in>set (flights d). flight_id f = a_flight_id a \<Longrightarrow>
     \<exists>s. total_preference_score d pm as = Inr s"
proof (induction as)
  case Nil
  then show ?case by simp
next
  case (Cons a as)
  then obtain s where s: "total_preference_score d pm as = Inr s" by auto
  from Cons.prems obtain f where "f \<in> set (flights d)" "flight_id f = a_flight_id a" by auto
  then have "find (\<lambda>f. flight_id f = a_flight_id a) (flights d) \<noteq> None"
    by (auto simp: find_None_iff)
  with s show ?case by auto
qed

lemma period_flights_set:
  "set (period_flights d period_start period_end) =
     {f \<in> set (flights d). period_start \<le> flight_date f \<and> flight_date f \<le> period_end}"
  by (auto simp: period_flights_def)



lemma count_list_map_insort_key:
  "count_list (map g (insort_key k x xs)) y = count_list (map g (x # xs)) y"
  by (induction xs) auto

lemma count_list_map_sort_key:
  "count_list (map g (sort_key k xs)) y = count_list (map g xs) y"
  by (induction xs) (auto simp: count_list_map_insort_key)

lemma count_list_distinct_member:
  "distinct xs \<Longrightarrow> x \<in> set xs \<Longrightarrow> count_list xs x = 1"
  by (induction xs) auto

lemma lists_each_onceI:
  assumes ids: "map a_flight_id as = map flight_id (period_flights d period_start period_end)"
    and ent: "\<forall>a\<in>set as. entry_for a"
  shows "lists_each_once d period_start period_end as"
proof -
  let ?P = "in_period period_start period_end"
  have pf: "period_flights d period_start period_end = sort_key sched_dep_utc (filter ?P (flights d))"
    by (simp add: period_flights_def in_period_def [abs_def])
  have cnt: "count_list (map a_flight_id as) i = count_list (map flight_id (filter ?P (flights d))) i" for i
    by (simp add: ids pf count_list_map_sort_key)
  have one: "count_list (map a_flight_id as) (flight_id f) = 1"
    if "distinct (map flight_id (flights d))" "f \<in> set (flights d)" "?P f" for f
  proof -
    from that(1) have "distinct (map flight_id (filter ?P (flights d)))"
      by (rule distinct_map_filter)
    moreover from that(2,3) have "flight_id f \<in> set (map flight_id (filter ?P (flights d)))"
      by auto
    ultimately show ?thesis
      by (simp only: cnt count_list_distinct_member)
  qed
  show ?thesis
    unfolding lists_each_once_def using ids cnt one ent by blast
qed

lemma entries_entry_for:
  "list_all2 (\<lambda>a f. a = unassigned_entry f \<or> (\<exists>c\<in>set crew_list. a = assigned_entry c f \<and> P c f)) as fs \<Longrightarrow>
     \<forall>a\<in>set as. entry_for a"
  by (induction as fs rule: list_all2_induct)
     (auto simp: unassigned_entry_def assigned_entry_def entry_for_def)

lemma greedy_run_entries:
  assumes "greedy_run today d period_start period_end rules = (as, st)"
  shows "list_all2 (\<lambda>a f. a = unassigned_entry f \<or>
        (\<exists>c\<in>set (active_crew d). a = assigned_entry c f \<and>
           is_crew_qualified_for_flight (crew_id c) f
             (build_qualification_map today (crew_qualifications d)) (flight_date f) \<and>
           is_crew_available (crew_id c) (flight_date f)
             (build_unavailable_crew_map (unavailable_crew_records d period_start period_end))))
      as (period_flights d period_start period_end)"
  using assms unfolding greedy_run_def by (rule assign_flights_entries)

lemma generate_roster_returns:
  assumes "greedy_run today d period_start period_end rules = (as, st)"
  shows "\<exists>k. generate_roster today d period_start period_end rules = Inr (as, k)"
proof -
  note ent = greedy_run_entries [OF assms]
  have ids: "map a_flight_id as = map flight_id (period_flights d period_start period_end)"
    using ent by (rule entries_flight_ids)
  have "\<forall>a\<in>set as. \<exists>f\<in>set (flights d). flight_id f = a_flight_id a"
  proof
    fix a assume "a \<in> set as"
    then have "a_flight_id a \<in> set (map flight_id (period_flights d period_start period_end))"
      using ids by (metis image_eqI set_map)
    then show "\<exists>f\<in>set (flights d). flight_id f = a_flight_id a"
      by (auto simp: period_flights_set)
  qed
  from total_preference_score_returns [OF this]
  obtain s where "total_preference_score d
      (build_preference_map (filter (preference_current today) (crew_preferences d))) as = Inr s"
    by blast
  with assms show ?thesis
    by (simp add: generate_roster_def Let_def)
qed

lemma decode_flights_entries:
  "decode_flights v crew_list cdc fs = (as, cdc') \<Longrightarrow>
     list_all2 (\<lambda>a f. a = unassigned_entry f \<or>
        (\<exists>c\<in>set crew_list. a = assigned_entry c f \<and> v (flight_id f, crew_id c) = 1)) as fs"
proof (induction fs arbitrary: cdc as cdc')
  case Nil
  then show ?case by simp
next
  case (Cons f fs)
  show ?case
  proof (cases "find (\<lambda>c. v (flight_id f, crew_id c) = 1) crew_list")
    case None
    obtain as1 cdc1 where r: "decode_flights v crew_list cdc fs = (as1, cdc1)"
      by (cases "decode_flights v crew_list cdc fs") auto
    with Cons.prems None have "as = unassigned_entry f # as1" by simp
    with Cons.IH [OF r] show ?thesis by simp
  next
    case (Some c)
    then have c: "c \<in> set crew_list" "v (flight_id f, crew_id c) = 1"
      by (auto simp: find_Some_iff)
    obtain as1 cdc1 where r: "decode_flights v crew_list
        (AList.update (crew_id c) (dict_get (map_of cdc) (crew_id c) 0 + 1) cdc) fs = (as1, cdc1)"
      by (cases "decode_flights v crew_list
        (AList.update (crew_id c) (dict_get (map_of cdc) (crew_id c) 0 + 1) cdc) fs") auto
    with Cons.prems Some have "as = assigned_entry c f # as1" by simp
    with Cons.IH [OF r] c show ?thesis by auto
  qed
qed

text \<open>
  C1: generate\_roster always returns (it never raises), and its assignment list, like the
  list decoded by \_process\_solution from any solver valuation, has one entry per flight
  of the period, in the order of the flights: every flight id occurs as often as there
  are rows with it in the period, which is once when flight ids are unique, and every
  entry either names a crew or carries the note UNASSIGNED.
\<close>

theorem roster_lists_every_flight_once:
  "(\<exists>as k. generate_roster today d period_start period_end rules = Inr (as, k) \<and>
            lists_each_once d period_start period_end as) \<and>
   lists_each_once d period_start period_end
     (fst (process_solution v (period_flights d period_start period_end) crew_list pm))"
proof
  obtain as st where run: "greedy_run today d period_start period_end rules = (as, st)"
    by (cases "greedy_run today d period_start period_end rules") auto
  from generate_roster_returns [OF run] obtain k where
    k: "generate_roster today d period_start period_end rules = Inr (as, k)" by blast
  note ent = greedy_run_entries [OF run]
  have "lists_each_once d period_start period_end as"
    using entries_flight_ids [OF ent] entries_entry_for [OF ent] by (rule lists_each_onceI)
  with k show "\<exists>as k. generate_roster today d period_start period_end rules = Inr (as, k) \<and>
            lists_each_once d period_start period_end as" by blast
next
  obtain as cdc where dec:
    "decode_flights v crew_list [] (period_flights d period_start period_end) = (as, cdc)"
    by (cases "decode_flights v crew_list [] (period_flights d period_start period_end)") auto
  note ent = decode_flights_entries [OF dec]
  have "lists_each_once d period_start period_end as"
    using entries_flight_ids [OF ent] entries_entry_for [OF ent] by (rule lists_each_onceI)
  with dec show "lists_each_once d period_start period_end
     (fst (process_solution v (period_flights d period_start period_end) crew_list pm))"
    by (simp add: process_solution_def Let_def)
qed



theorem roster_lists_every_flight_once_witness:
  "distinct (map flight_id (flights streak_db)) \<and>
   (\<exists>as k. generate_roster 739250 streak_db 739252 739253 example_rules = Inr (as, k) \<and>
      map a_flight_id as = [1, 2] \<and>
      count_list (map a_flight_id as) 1 = 1 \<and> count_list (map a_flight_id as) 2 = 1) \<and>
   map a_flight_id (fst (process_solution (pick (1, 1)) (period_flights streak_db 739252 739253)
      (active_crew streak_db) Map.empty)) = [1, 2]"
proof -
  have fl: "map flight_id (period_flights streak_db 739252 739253) = [1, 2]"
    by code_simp
  from roster_lists_every_flight_once
    [of 739250 streak_db 739252 739253 example_rules "pick (1, 1)" "active_crew streak_db" Map.empty]
  obtain as k where
    res: "generate_roster 739250 streak_db 739252 739253 example_rules = Inr (as, k)" and
    once: "lists_each_once streak_db 739252 739253 as" and
    dec: "lists_each_once streak_db 739252 739253
      (fst (process_solution (pick (1, 1)) (period_flights streak_db 739252 739253)
         (active_crew streak_db) Map.empty))"
    by blast
  from once fl have ids: "map a_flight_id as = [1, 2]"
    by (simp add: lists_each_once_def)
  from dec fl have "map a_flight_id (fst (process_solution (pick (1, 1))
      (period_flights streak_db 739252 739253) (active_crew streak_db) Map.empty)) = [1, 2]"
    by (simp add: lists_each_once_def)
  moreover have "distinct (map flight_id (flights streak_db))"
    by code_simp
  ultimately show ?thesis using res ids by simp
qed

section \<open>Qualifications and availability\<close>

lemma list_all2_mono_mem:
  "list_all2 P xs ys \<Longrightarrow> (\<And>x y. y \<in> set ys \<Longrightarrow> P x y \<Longrightarrow> Q x y) \<Longrightarrow> list_all2 Q xs ys"
  by (induction xs ys rule: list_all2_induct) auto

lemma no_approved_absence_conv:
  assumes "f \<in> set (period_flights d period_start period_end)"
  shows "is_crew_available cid (flight_date f)
           (build_unavailable_crew_map (unavailable_crew_records d period_start period_end)) \<longleftrightarrow>
         no_approved_absence d cid (flight_date f)"
proof -
  from assms have "period_start \<le> flight_date f" "flight_date f \<le> period_end"
    by (auto simp: period_flights_set)
  from period_availability [OF this] show ?thesis
    by (auto simp: no_approved_absence_def list_ex_iff)
qed

lemma greedy_respects_availability:
  assumes "generate_roster today d period_start period_end rules = Inr (as, k)"
  shows "respects_availability d as (period_flights d period_start period_end)"
proof -
  obtain as' st where run: "greedy_run today d period_start period_end rules = (as', st)"
    by (cases "greedy_run today d period_start period_end rules") auto
  with assms have "as' = as"
    by (auto simp: generate_roster_def Let_def split: sum.splits)
  with greedy_run_entries [OF run] have ent: "list_all2 (\<lambda>a f. a = unassigned_entry f \<or>
        (\<exists>c\<in>set (active_crew d). a = assigned_entry c f \<and>
           is_crew_qualified_for_flight (crew_id c) f
             (build_qualification_map today (crew_qualifications d)) (flight_date f) \<and>
           is_crew_available (crew_id c) (flight_date f)
             (build_unavailable_crew_map (unavailable_crew_records d period_start period_end))))
      as (period_flights d period_start period_end)" by simp
  show ?thesis
    unfolding respects_availability_def
    by (rule list_all2_mono_mem [OF ent])
       (auto simp: no_approved_absence_conv unassigned_entry_def assigned_entry_def)
qed

lemma greedy_assigns_only_qualified:
  assumes "generate_roster today d period_start period_end rules = Inr (as, k)"
  shows "list_all2 (\<lambda>a f. a_flight_id a = flight_id f \<and>
            (case a_crew_id a of None \<Rightarrow> True | Some cid \<Rightarrow> holds_valid_qualification d cid f))
          as (period_flights d period_start period_end)"
proof -
  obtain as' st where run: "greedy_run today d period_start period_end rules = (as', st)"
    by (cases "greedy_run today d period_start period_end rules") auto
  with assms have "as' = as"
    by (auto simp: generate_roster_def Let_def split: sum.splits)
  with greedy_run_entries [OF run] have ent: "list_all2 (\<lambda>a f. a = unassigned_entry f \<or>
        (\<exists>c\<in>set (active_crew d). a = assigned_entry c f \<and>
           is_crew_qualified_for_flight (crew_id c) f
             (build_qualification_map today (crew_qualifications d)) (flight_date f) \<and>
           is_crew_available (crew_id c) (flight_date f)
             (build_unavailable_crew_map (unavailable_crew_records d period_start period_end))))
      as (period_flights d period_start period_end)" by simp
  show ?thesis
  proof (rule list_all2_mono_mem [OF ent])
    fix a f
    assume "a = unassigned_entry f \<or>
        (\<exists>c\<in>set (active_crew d). a = assigned_entry c f \<and>
           is_crew_qualified_for_flight (crew_id c) f
             (build_qualification_map today (crew_qualifications d)) (flight_date f) \<and>
           is_crew_available (crew_id c) (flight_date f)
             (build_unavailable_crew_map (unavailable_crew_records d period_start period_end)))"
    then show "a_flight_id a = flight_id f \<and>
            (case a_crew_id a of None \<Rightarrow> True | Some cid \<Rightarrow> holds_valid_qualification d cid f)"
    proof
      assume "a = unassigned_entry f"
      then show ?thesis by (simp add: unassigned_entry_def)
    next
      assume "\<exists>c\<in>set (active_crew d). a = assigned_entry c f \<and>
           is_crew_qualified_for_flight (crew_id c) f
             (build_qualification_map today (crew_qualifications d)) (flight_date f) \<and>
           is_crew_available (crew_id c) (flight_date f)
             (build_unavailable_crew_map (unavailable_crew_records d period_start period_end))"
      then obtain c where a: "a = assigned_entry c f"
        and q: "is_crew_qualified_for_flight (crew_id c) f
             (build_qualification_map today (crew_qualifications d)) (flight_date f)" by blast
      from qualified_has_record [OF q] have "holds_valid_qualification d (crew_id c) f"
        by (simp add: holds_valid_qualification_def list_ex_iff)
      with a show ?thesis by (simp add: assigned_entry_def)
    qed
  qed
qed

lemma list_all_concat_map:
  "list_all P (concat (map f xs)) \<longleftrightarrow> (\<forall>x\<in>set xs. list_all P (f x))"
  by (induction xs) auto

lemma availability_constraints_hold:
  assumes "list_all (holds v) (add_availability_constraints fs cs um)"
    and "f \<in> set fs" "c \<in> set cs" "crew_unavailable um (crew_id c) (flight_date f)"
  shows "v (flight_id f, crew_id c) = 0"
  using assms unfolding add_availability_constraints_def
  by (auto simp: list_all_concat_map dest!: bspec [where x = f] bspec [where x = c])

lemma feasible_respects_unavailability:
  assumes "feasible (roster_model self today d period_start period_end) v"
    and "f \<in> set (period_flights d period_start period_end)" "c \<in> set (active_crew d)"
    and "v (flight_id f, crew_id c) = 1"
  shows "no_approved_absence d (crew_id c) (flight_date f)"
proof (rule ccontr)
  assume "\<not> no_approved_absence d (crew_id c) (flight_date f)"
  then have "crew_unavailable
      (build_unavailable_crew_map (unavailable_crew_records d period_start period_end))
      (crew_id c) (flight_date f)"
    by (simp add: crew_unavailable_conv no_approved_absence_conv [OF assms(2)])
  moreover from assms(1) have "list_all (holds v) (add_availability_constraints
      (period_flights d period_start period_end) (active_crew d)
      (build_unavailable_crew_map (unavailable_crew_records d period_start period_end)))"
    by (simp add: feasible_def roster_model_def Let_def)
  ultimately have "v (flight_id f, crew_id c) = 0"
    using assms(2,3) by (intro availability_constraints_hold)
  with assms(4) show False by simp
qed

lemma example_solver_sound: "solver_sound (example_solver v)"
  by (simp add: solver_sound_def example_solver_def)

lemma solver_soundD:
  assumes "solver_sound solve" "solve s m = (st, v)" "st = OPTIMAL \<or> st = FEASIBLE"
  shows "feasible m v"
proof -
  from assms(1) have "case solve s m of (st, v) \<Rightarrow> (st = OPTIMAL \<or> st = FEASIBLE) \<longrightarrow> feasible m v"
    unfolding solver_sound_def by (elim allE)
  with assms(2,3) show ?thesis by auto
qed

lemma solver_respects_availability:
  assumes sound: "solver_sound solve"
    and res: "generate_roster_with_or_tools solve today d period_start period_end rules = Inr (as, k)"
  shows "respects_availability d as (period_flights d period_start period_end)"
proof -
  let ?self = CrewRosteringOptimizer
  let ?m = "roster_model ?self today d period_start period_end"
  obtain st v where sv: "solve (opt_solver ?self) ?m = (st, v)"
    by (cases "solve (opt_solver ?self) ?m") auto
  show ?thesis
  proof (cases "st = OPTIMAL \<or> st = FEASIBLE")
    case True
    have feas: "feasible ?m v"
      using sound sv True by (rule solver_soundD)
    let ?pm = "build_preference_map (filter (preference_current today) (crew_preferences d))"
    from res sv True have as: "as = fst (process_solution v
        (period_flights d period_start period_end) (active_crew d) ?pm)"
      by (auto simp: generate_roster_with_or_tools_def optimize_roster_def Let_def)
    obtain as' cdc where dec: "decode_flights v (active_crew d) []
        (period_flights d period_start period_end) = (as', cdc)"
      by (cases "decode_flights v (active_crew d) [] (period_flights d period_start period_end)") auto
    with as have "as' = as" by (simp add: process_solution_def Let_def)
    with decode_flights_entries [OF dec] have ent: "list_all2 (\<lambda>a f. a = unassigned_entry f \<or>
        (\<exists>c\<in>set (active_crew d). a = assigned_entry c f \<and> v (flight_id f, crew_id c) = 1))
        as (period_flights d period_start period_end)" by simp
    show ?thesis
      unfolding respects_availability_def
      by (rule list_all2_mono_mem [OF ent])
         (auto simp: unassigned_entry_def assigned_entry_def
            intro: feasible_respects_unavailability [OF feas])
  next
    case False
    with res sv have "generate_roster today d period_start period_end rules = Inr (as, k)"
      by (auto simp: generate_roster_with_or_tools_def optimize_roster_def Let_def)
    then show ?thesis by (rule greedy_respects_availability)
  qed
qed

lemma only_approved_tables:
  "flights (only_approved d) = flights d"
  "crews (only_approved d) = crews d"
  "crew_qualifications (only_approved d) = crew_qualifications d"
  "crew_preferences (only_approved d) = crew_preferences d"
  by (simp_all add: only_approved_def)

lemma unavailable_crew_records_only_approved:
  "unavailable_crew_records (only_approved d) period_start period_end =
   unavailable_crew_records d period_start period_end"
  unfolding unavailable_crew_records_def only_approved_def
  by (auto intro: filter_cong)

lemma period_flights_only_approved:
  "period_flights (only_approved d) period_start period_end = period_flights d period_start period_end"
  by (simp add: period_flights_def only_approved_tables)

lemma active_crew_only_approved: "active_crew (only_approved d) = active_crew d"
  by (simp add: active_crew_def only_approved_tables)

lemma total_preference_score_only_approved:
  "total_preference_score (only_approved d) pm as = total_preference_score d pm as"
  by (induction as) (simp_all add: only_approved_tables split: option.splits)

lemma greedy_run_only_approved:
  "greedy_run today (only_approved d) period_start period_end rules =
   greedy_run today d period_start period_end rules"
  by (simp only: greedy_run_def unavailable_crew_records_only_approved
      period_flights_only_approved active_crew_only_approved only_approved_tables)

lemma generate_roster_only_approved:
  "generate_roster today (only_approved d) period_start period_end rules =
   generate_roster today d period_start period_end rules"
  by (simp only: generate_roster_def greedy_run_only_approved period_flights_only_approved
      total_preference_score_only_approved only_approved_tables)

lemma roster_model_only_approved:
  "roster_model self today (only_approved d) period_start period_end =
   roster_model self today d period_start period_end"
  by (simp only: roster_model_def unavailable_crew_records_only_approved
      period_flights_only_approved active_crew_only_approved only_approved_tables)

lemma or_tools_only_approved:
  "generate_roster_with_or_tools solve today (only_approved d) period_start period_end rules =
   generate_roster_with_or_tools solve today d period_start period_end rules"
  by (simp only: generate_roster_with_or_tools_def optimize_roster_def roster_model_only_approved
      generate_roster_only_approved period_flights_only_approved active_crew_only_approved
      only_approved_tables)

text \<open>
  C3: in a roster of either strategy (the greedy assigner, and the solver path for any
  sound solver) the crew of an entry has no availability record with status approved whose
  date range covers the date of the entry's flight; and dropping every record whose status
  is not approved from the table leaves the result of both strategies unchanged, so such
  a record never excludes anyone.
\<close>

theorem approved_absence_excludes_crew:
  assumes "solver_sound solve"
  shows "(\<forall>as k. generate_roster today d period_start period_end rules = Inr (as, k) \<longrightarrow>
            respects_availability d as (period_flights d period_start period_end)) \<and>
         (\<forall>as k. generate_roster_with_or_tools solve today d period_start period_end rules = Inr (as, k) \<longrightarrow>
            respects_availability d as (period_flights d period_start period_end)) \<and>
         generate_roster today (only_approved d) period_start period_end rules =
           generate_roster today d period_start period_end rules \<and>
         generate_roster_with_or_tools solve today (only_approved d) period_start period_end rules =
           generate_roster_with_or_tools solve today d period_start period_end rules"
proof (intro conjI allI impI)
  fix as k
  assume "generate_roster today d period_start period_end rules = Inr (as, k)"
  then show "respects_availability d as (period_flights d period_start period_end)"
    by (rule greedy_respects_availability)
next
  fix as k
  assume "generate_roster_with_or_tools solve today d period_start period_end rules = Inr (as, k)"
  with assms show "respects_availability d as (period_flights d period_start period_end)"
    by (rule solver_respects_availability)
next
  show "generate_roster today (only_approved d) period_start period_end rules =
           generate_roster today d period_start period_end rules"
    by (rule generate_roster_only_approved)
next
  show "generate_roster_with_or_tools solve today (only_approved d) period_start period_end rules =
           generate_roster_with_or_tools solve today d period_start period_end rules"
    by (rule or_tools_only_approved)
qed



theorem approved_absence_excludes_crew_witness:
  "solver_sound (example_solver (pick (1, 2))) \<and>
   (\<exists>as k. generate_roster 739250 absence_db 739252 739252 example_rules = Inr (as, k) \<and>
      map a_crew_id as = [Some 2] \<and>
      respects_availability absence_db as (period_flights absence_db 739252 739252)) \<and>
   (\<exists>as k. generate_roster_with_or_tools (example_solver (pick (1, 2))) 739250 absence_db
              739252 739252 example_rules = Inr (as, k) \<and>
      map a_crew_id as = [Some 2] \<and>
      respects_availability absence_db as (period_flights absence_db 739252 739252))"
proof -
  note inst = approved_absence_excludes_crew [OF example_solver_sound [of "pick (1, 2)"],
      of 739250 absence_db 739252 739252 example_rules]
  have "case generate_roster 739250 absence_db 739252 739252 example_rules of
          Inr (as, k) \<Rightarrow> map a_crew_id as = [Some 2] | Inl e \<Rightarrow> False"
    by code_simp
  then obtain as k where
    g: "generate_roster 739250 absence_db 739252 739252 example_rules = Inr (as, k)"
      "map a_crew_id as = [Some 2]"
    by (auto split: sum.splits)
  have "case generate_roster_with_or_tools (example_solver (pick (1, 2))) 739250 absence_db
               739252 739252 example_rules of
          Inr (as, k) \<Rightarrow> map a_crew_id as = [Some 2] | Inl e \<Rightarrow> False"
    by code_simp
  then obtain as' k' where
    s: "generate_roster_with_or_tools (example_solver (pick (1, 2))) 739250 absence_db
          739252 739252 example_rules = Inr (as', k')"
      "map a_crew_id as' = [Some 2]"
    by (auto split: sum.splits)
  from inst g(1) have ra: "respects_availability absence_db as (period_flights absence_db 739252 739252)"
    by blast
  from inst s(1) have
    rs: "respects_availability absence_db as' (period_flights absence_db 739252 739252)"
    by blast
  have one: "\<exists>as k. generate_roster 739250 absence_db 739252 739252 example_rules = Inr (as, k) \<and>
      map a_crew_id as = [Some 2] \<and>
      respects_availability absence_db as (period_flights absence_db 739252 739252)"
    using g ra by (intro exI conjI)
  have two: "\<exists>as k. generate_roster_with_or_tools (example_solver (pick (1, 2))) 739250 absence_db
              739252 739252 example_rules = Inr (as, k) \<and>
      map a_crew_id as = [Some 2] \<and>
      respects_availability absence_db as (period_flights absence_db 739252 739252)"
    using s rs by (intro exI conjI)
  from example_solver_sound one two show ?thesis by (intro conjI)
qed

section \<open>The fairness score\<close>

lemma set_update_subset: "set (AList.update k v al) \<subseteq> insert (k, v) (set al)"
  by (induction al) auto

lemma dict_get_count_nonneg:
  assumes "positive_counts cdc"
  shows "0 \<le> dict_get (map_of cdc) k 0"
proof (cases "map_of cdc k")
  case None
  then show ?thesis by (simp add: dict_get_def)
next
  case (Some n)
  then have "(k, n) \<in> set cdc" by (rule map_of_SomeD)
  then have "n \<in> set (map snd cdc)" by force
  with assms have "1 \<le> n" unfolding positive_counts_def by blast
  with Some show ?thesis by (simp add: dict_get_def)
qed

lemma positive_counts_update:
  assumes "positive_counts cdc"
  shows "positive_counts (AList.update k (dict_get (map_of cdc) k 0 + 1) cdc)"
proof -
  have "1 \<le> dict_get (map_of cdc) k 0 + 1"
    using dict_get_count_nonneg [OF assms, of k] by simp
  with assms set_update_subset [of k "dict_get (map_of cdc) k 0 + 1" cdc] show ?thesis
    unfolding positive_counts_def by auto
qed

lemma crew_duty_count_update_crew_history:
  "crew_duty_count (update_crew_history st cid start dend cc nc) =
     AList.update cid (dict_get (map_of (crew_duty_count st)) cid 0 + 1) (crew_duty_count st)"
  by (simp add: update_crew_history_def Let_def split: option.splits)

lemma assign_flights_positive_counts:
  "assign_flights rules qm um pm crew_list st fs = (as, st') \<Longrightarrow>
     positive_counts (crew_duty_count st) \<Longrightarrow> positive_counts (crew_duty_count st')"
proof (induction fs arbitrary: st as st')
  case Nil
  then show ?case by simp
next
  case (Cons f fs)
  obtain a st1 where a: "assign_flight rules qm um pm crew_list st f = (a, st1)"
    by (cases "assign_flight rules qm um pm crew_list st f") auto
  obtain as1 st2 where r: "assign_flights rules qm um pm crew_list st1 fs = (as1, st2)"
    by (cases "assign_flights rules qm um pm crew_list st1 fs") auto
  from Cons.prems(1) a r have st': "st' = st2" by simp
  from assign_flight_cases [OF a] Cons.prems(2) have "positive_counts (crew_duty_count st1)"
    by (auto simp: crew_duty_count_update_crew_history positive_counts_update)
  from Cons.IH [OF r this] st' show ?case by simp
qed

lemma decode_flights_positive_counts:
  "decode_flights v crew_list cdc fs = (as, cdc') \<Longrightarrow> positive_counts cdc \<Longrightarrow> positive_counts cdc'"
proof (induction fs arbitrary: cdc as cdc')
  case Nil
  then show ?case by simp
next
  case (Cons f fs)
  show ?case
  proof (cases "find (\<lambda>c. v (flight_id f, crew_id c) = 1) crew_list")
    case None
    obtain as1 cdc1 where r: "decode_flights v crew_list cdc fs = (as1, cdc1)"
      by (cases "decode_flights v crew_list cdc fs") auto
    with Cons.prems(1) None have "cdc' = cdc1" by simp
    with Cons.IH [OF r Cons.prems(2)] show ?thesis by simp
  next
    case (Some c)
    let ?cdc = "AList.update (crew_id c) (dict_get (map_of cdc) (crew_id c) 0 + 1) cdc"
    obtain as1 cdc1 where r: "decode_flights v crew_list ?cdc fs = (as1, cdc1)"
      by (cases "decode_flights v crew_list ?cdc fs") auto
    with Cons.prems(1) Some have "cdc' = cdc1" by simp
    with Cons.IH [OF r positive_counts_update [OF Cons.prems(2)]] show ?thesis by simp
  qed
qed

lemma positive_counts_Nil: "positive_counts []"
  by (simp add: positive_counts_def)

lemma make_kpis_fields:
  "max_duty_per_crew (make_kpis t a cdc s) = max_duty_count_of cdc"
  "min_duty_per_crew (make_kpis t a cdc s) = min_duty_count_of cdc"
  "fairness_score (make_kpis t a cdc s) =
     (if max_duty_count_of cdc \<noteq> 0
      then 1 - of_int (max_duty_count_of cdc - min_duty_count_of cdc) / of_int (max_duty_count_of cdc + 1)
      else 1)"
  by (simp_all add: make_kpis_def Let_def)

lemma duty_count_bounds:
  assumes "positive_counts cdc" "cdc \<noteq> []"
  shows "1 \<le> min_duty_count_of cdc" "min_duty_count_of cdc \<le> max_duty_count_of cdc"
proof -
  let ?S = "set (map snd cdc)"
  have fin: "finite ?S" and ne: "?S \<noteq> {}" using assms(2) by auto
  from assms(1) have "\<forall>n\<in>?S. 1 \<le> n" by (simp add: positive_counts_def)
  with fin ne have "1 \<le> Min ?S" by (simp add: Min_ge_iff)
  with assms(2) show "1 \<le> min_duty_count_of cdc" by (simp add: min_duty_count_of_def)
  from assms(2) obtain x where x: "x \<in> ?S" by (cases cdc) auto
  from fin x have "Min ?S \<le> x" "x \<le> Max ?S" by simp_all
  then have "Min ?S \<le> Max ?S" by (rule order_trans)
  with assms(2) show "min_duty_count_of cdc \<le> max_duty_count_of cdc"
    by (simp add: min_duty_count_of_def max_duty_count_of_def)
qed

lemma fairness_formula:
  fixes mx mn :: int
  assumes "1 \<le> mn" "mn \<le> mx"
  shows "0 \<le> 1 - (of_int (mx - mn) :: rat) / of_int (mx + 1)"
    and "1 - (of_int (mx - mn) :: rat) / of_int (mx + 1) \<le> 1"
proof -
  have pos: "(0::rat) < of_int (mx + 1)" using assms by simp
  have "(of_int (mx - mn) :: rat) \<le> of_int (mx + 1)" using assms by simp
  with pos have "(of_int (mx - mn) :: rat) / of_int (mx + 1) \<le> 1"
    by (simp add: divide_le_eq)
  then show "0 \<le> 1 - (of_int (mx - mn) :: rat) / of_int (mx + 1)" by simp
  have "(0::rat) \<le> of_int (mx - mn)" using assms by simp
  with pos have "(0::rat) \<le> of_int (mx - mn) / of_int (mx + 1)"
    by (simp add: zero_le_divide_iff)
  then show "1 - (of_int (mx - mn) :: rat) / of_int (mx + 1) \<le> 1" by simp
qed

lemma make_kpis_fairness:
  assumes "positive_counts cdc"
  shows "fairness_as_specified (make_kpis t a cdc s)"
proof (cases "cdc = []")
  case True
  then show ?thesis
    by (simp add: fairness_as_specified_def make_kpis_fields max_duty_count_of_def
        min_duty_count_of_def)
next
  case False
  note b = duty_count_bounds [OF assms False]
  from b have nz: "max_duty_count_of cdc \<noteq> 0" by simp
  from fairness_formula [OF b] nz show ?thesis
    by (simp add: fairness_as_specified_def make_kpis_fields)
qed

lemma generate_roster_fairness:
  assumes "generate_roster today d period_start period_end rules = Inr (as, k)"
  shows "fairness_as_specified k"
proof -
  obtain as' st where run: "greedy_run today d period_start period_end rules = (as', st)"
    by (cases "greedy_run today d period_start period_end rules") auto
  then have "positive_counts (crew_duty_count st)"
    unfolding greedy_run_def
    by (rule assign_flights_positive_counts) (simp add: initial_state_def positive_counts_Nil)
  then have "fairness_as_specified (make_kpis t a (crew_duty_count st) s)" for t a s
    by (rule make_kpis_fairness)
  with assms run show ?thesis
    by (auto simp: generate_roster_def Let_def split: sum.splits)
qed

lemma process_solution_fairness:
  "fairness_as_specified (snd (process_solution v fl cl pm))"
proof -
  obtain as cdc where dec: "decode_flights v cl [] fl = (as, cdc)"
    by (cases "decode_flights v cl [] fl") auto
  then have "positive_counts cdc"
    by (rule decode_flights_positive_counts) (rule positive_counts_Nil)
  then have "fairness_as_specified (make_kpis t a cdc s)" for t a s
    by (rule make_kpis_fairness)
  with dec show ?thesis by (simp add: process_solution_def Let_def)
qed

lemma or_tools_fairness:
  assumes "generate_roster_with_or_tools solve today d period_start period_end rules = Inr (as, k)"
  shows "fairness_as_specified k"
proof -
  let ?m = "roster_model CrewRosteringOptimizer today d period_start period_end"
  obtain st v where sv: "solve (opt_solver CrewRosteringOptimizer) ?m = (st, v)"
    by (cases "solve (opt_solver CrewRosteringOptimizer) ?m") auto
  show ?thesis
  proof (cases "st = OPTIMAL \<or> st = FEASIBLE")
    case True
    with assms sv have "k = snd (process_solution v (period_flights d period_start period_end)
        (active_crew d)
        (build_preference_map (filter (preference_current today) (crew_preferences d))))"
      by (auto simp: generate_roster_with_or_tools_def optimize_roster_def Let_def)
    then show ?thesis by (simp add: process_solution_fairness)
  next
    case False
    with assms sv have "generate_roster today d period_start period_end rules = Inr (as, k)"
      by (auto simp: generate_roster_with_or_tools_def optimize_roster_def Let_def)
    then show ?thesis by (rule generate_roster_fairness)
  qed
qed

text \<open>
  C8: in the KPIs of either strategy (generate\_roster, \_process\_solution on any valuation,
  and so the solver path with its fallback) fairness\_score equals
  1 - (max\_duty\_per\_crew - min\_duty\_per\_crew) / (max\_duty\_per\_crew + 1), lies between 0
  and 1, and is 1 when the maximum is 0 or equals the minimum. Floats are read as
  rationals.
\<close>

theorem fairness_score_formula_and_range:
  "(\<forall>as k. generate_roster today d period_start period_end rules = Inr (as, k) \<longrightarrow>
       fairness_as_specified k) \<and>
   fairness_as_specified (snd (process_solution v flight_list crew_list pm)) \<and>
   (\<forall>as k. generate_roster_with_or_tools solve today d period_start period_end rules = Inr (as, k) \<longrightarrow>
       fairness_as_specified k)"
proof (intro conjI allI impI)
  fix as k
  assume "generate_roster today d period_start period_end rules = Inr (as, k)"
  then show "fairness_as_specified k" by (rule generate_roster_fairness)
next
  show "fairness_as_specified (snd (process_solution v flight_list crew_list pm))"
    by (rule process_solution_fairness)
next
  fix as k
  assume "generate_roster_with_or_tools solve today d period_start period_end rules = Inr (as, k)"
  then show "fairness_as_specified k" by (rule or_tools_fairness)
qed

theorem fairness_score_formula_and_range_witness:
  "\<exists>as k. generate_roster 739250 uneven_db 739252 739253 example_rules = Inr (as, k) \<and>
      max_duty_per_crew k = 2 \<and> min_duty_per_crew k = 1 \<and> fairness_score k = 2 / 3 \<and>
      fairness_as_specified k"
proof -
  have "case generate_roster 739250 uneven_db 739252 739253 example_rules of
          Inr (as, k) \<Rightarrow> max_duty_per_crew k = 2 \<and> min_duty_per_crew k = 1 \<and>
                          fairness_score k = 2 / 3
        | Inl e \<Rightarrow> False"
    by code_simp
  then obtain as k where
    g: "generate_roster 739250 uneven_db 739252 739253 example_rules = Inr (as, k)"
      "max_duty_per_crew k = 2" "min_duty_per_crew k = 1" "fairness_score k = 2 / 3"
    by (auto split: sum.splits)
  from fairness_score_formula_and_range [of 739250 uneven_db 739252 739253 example_rules] g(1)
  have "fairness_as_specified k" by blast
  with g show ?thesis by (intro exI conjI)
qed

section \<open>The streak of consecutive days, and expiry in the solver model\<close>

lemma dt_date_mono: "s \<le> t \<Longrightarrow> dt_date s \<le> dt_date t"
  by (simp add: dt_date_def us_per_day_def zdiv_mono1)

lemma streak_always_reset:
  assumes "start \<le> dend"
  shows "crew_consecutive_days (update_crew_history st cid start dend cc nc) cid = Some 1"
proof -
  from dt_date_mono [OF assms] have "dt_date start - dt_date dend \<noteq> 1" by simp
  then show ?thesis by (simp add: update_crew_history_def Let_def)
qed

text \<open>
  C4: one crew member flies 08:00 to 10:00 on 2025-01-01 and again on 2025-01-02. The second
  duty starts exactly one calendar day after the end of the first, so the streak should
  be 2; generate\_roster leaves it at 1. It stores the end of the new duty as the last duty
  end before it compares dates, and so compares the new duty with itself
  (\<open>streak_always_reset\<close>).
\<close>

theorem streak_not_incremented_on_next_day:
  "(case greedy_run 739250 streak_db 739252 739253 example_rules of
      (as, st) \<Rightarrow>
        map a_crew_id as = [Some 1, Some 1] \<and>
        map (dt_date \<circ> a_duty_start_utc) as = [739252, 739253] \<and>
        map (dt_date \<circ> a_duty_end_utc) as = [739252, 739253] \<and>
        crew_consecutive_days st 1 = Some 1)"
  by code_simp

text \<open>
  C2: the qualification of crew 1 for the A320 expires on 2024-12-31, the flight is on
  2025-01-01, and rosters are made on 2024-12-30. The solver's model only forbids crew with
  no entry in the qualification map (built from the rows not yet expired today), so
  assigning crew 1 satisfies it and the decoder reports crew 1 on the flight. The greedy
  assigner, on the same data, leaves the flight unassigned
  (\<open>greedy_assigns_only_qualified\<close>).
\<close>

theorem solver_assigns_expired_qualification:
  "feasible (roster_model CrewRosteringOptimizer 739250 expiry_db 739252 739252) (pick (1, 1)) \<and>
   (case generate_roster_with_or_tools (example_solver (pick (1, 1))) 739250 expiry_db 739252 739252
           example_rules of
      Inr (as, k) \<Rightarrow> map a_crew_id as = [Some 1] \<and> map a_flight_id as = [1]
    | Inl e \<Rightarrow> False) \<and>
   map (\<lambda>q. (q_crew_id q, q_aircraft_code q, expires_on q)) (crew_qualifications expiry_db) =
     [(1, ''A320'', Some 739251)] \<and>
   map (\<lambda>f. (flight_id f, aircraft_code f, flight_date f)) (flights expiry_db) =
     [(1, ''A320'', 739252)] \<and>
   \<not> holds_valid_qualification expiry_db 1 (hd (flights expiry_db)) \<and>
   (case generate_roster 739250 expiry_db 739252 739252 example_rules of
      Inr (as, k) \<Rightarrow> map a_crew_id as = [None]
    | Inl e \<Rightarrow> False)"
  by code_simp

section \<open>The fallback of the solver strategy\<close>

text \<open>
  C6, as stated: the solve call runs under a bounded wall-clock budget. The solver object
  that optimize\_roster passes to \<^verbatim>\<open>Solve\<close> is the one made in \<^verbatim>\<open>__init__\<close>, and no time limit
  is ever set on it.
\<close>

theorem solver_has_no_time_limit:
  "max_time_in_seconds (opt_solver CrewRosteringOptimizer) = None"
  by (simp add: CrewRosteringOptimizer_def CpSolver_def)

text \<open>
  C6, amended: whenever the solver's status is neither OPTIMAL nor FEASIBLE (infeasible,
  invalid model, or unknown, which is what a solver stopped early reports), the result
  of the solver strategy is exactly the result of generate\_roster on the same database,
  date, period and rules, and that result is a roster, not an error.
\<close>

theorem no_solution_falls_back_to_greedy:
  assumes "solve (opt_solver CrewRosteringOptimizer)
             (roster_model CrewRosteringOptimizer today d period_start period_end) = (st, v)"
    and "st \<noteq> OPTIMAL" "st \<noteq> FEASIBLE"
  shows "generate_roster_with_or_tools solve today d period_start period_end rules =
           generate_roster today d period_start period_end rules \<and>
         (\<exists>as k. generate_roster_with_or_tools solve today d period_start period_end rules = Inr (as, k))"
proof -
  from assms have eq: "generate_roster_with_or_tools solve today d period_start period_end rules =
           generate_roster today d period_start period_end rules"
    by (simp add: generate_roster_with_or_tools_def optimize_roster_def Let_def)
  obtain as st' where "greedy_run today d period_start period_end rules = (as, st')"
    by (cases "greedy_run today d period_start period_end rules") auto
  from generate_roster_returns [OF this] eq show ?thesis by auto
qed

theorem no_solution_falls_back_to_greedy_witness:
  "failing_solver (opt_solver CrewRosteringOptimizer)
      (roster_model CrewRosteringOptimizer 739250 streak_db 739252 739253) = (UNKNOWN, (\<lambda>x. 0)) \<and>
   generate_roster_with_or_tools failing_solver 739250 streak_db 739252 739253 example_rules =
     generate_roster 739250 streak_db 739252 739253 example_rules \<and>
   (\<exists>as k. generate_roster_with_or_tools failing_solver 739250 streak_db 739252 739253 example_rules
       = Inr (as, k))"
proof -
  have f: "failing_solver (opt_solver CrewRosteringOptimizer)
      (roster_model CrewRosteringOptimizer 739250 streak_db 739252 739253) = (UNKNOWN, (\<lambda>x. 0))"
    by (simp add: failing_solver_def)
  have "UNKNOWN \<noteq> OPTIMAL" "UNKNOWN \<noteq> FEASIBLE" by simp_all
  with no_solution_falls_back_to_greedy [where solve = failing_solver and today = 739250
      and d = streak_db and period_start = 739252 and period_end = 739253 and st = UNKNOWN
      and v = "\<lambda>x. 0" and rules = example_rules] f
  show ?thesis by blast
qed

section \<open>Delays\<close>

lemma find_flight_by_no_None:
  "find_flight_by_no d fno = None \<longleftrightarrow> (\<forall>f\<in>set (flights d). flight_no f \<noteq> fno)"
proof -
  let ?xs = "filter (\<lambda>f. flight_no f = fno) (flights d)"
  have "find_flight_by_no d fno = None \<longleftrightarrow> sort_key (\<lambda>f. - flight_date f) ?xs = []"
    by (simp add: find_flight_by_no_def split: list.splits)
  also have "\<dots> \<longleftrightarrow> set (sort_key (\<lambda>f. - flight_date f) ?xs) = {}"
    by (simp only: set_empty)
  also have "\<dots> \<longleftrightarrow> (\<forall>f\<in>set (flights d). flight_no f \<noteq> fno)"
    by (auto simp: filter_empty_conv)
  finally show ?thesis .
qed

lemma find_flight_by_no_Some:
  assumes "find_flight_by_no d fno = Some f"
  shows "f \<in> set (flights d)" "flight_no f = fno"
    "\<forall>g\<in>set (flights d). flight_no g = fno \<longrightarrow> flight_date g \<le> flight_date f"
proof -
  let ?xs = "filter (\<lambda>f. flight_no f = fno) (flights d)"
  let ?ys = "sort_key (\<lambda>f. - flight_date f) ?xs"
  from assms obtain rest where ys: "?ys = f # rest"
    by (auto simp: find_flight_by_no_def split: list.splits)
  then have "f \<in> set ?ys" by simp
  then show "f \<in> set (flights d)" "flight_no f = fno" by simp_all
  have "sorted (map (\<lambda>f. - flight_date f) ?ys)" by (rule sorted_sort_key)
  with ys have le: "\<forall>g\<in>set rest. - flight_date f \<le> - flight_date g" by simp
  show "\<forall>g\<in>set (flights d). flight_no g = fno \<longrightarrow> flight_date g \<le> flight_date f"
  proof (intro ballI impI)
    fix g assume "g \<in> set (flights d)" "flight_no g = fno"
    then have "g \<in> set ?ys" by simp
    with ys have "g = f \<or> g \<in> set rest" by simp
    with le show "flight_date g \<le> flight_date f" by auto
  qed
qed

lemma timedelta_of_minutes_in_range:
  assumes "datetime_in_range t" "datetime_in_range (t + timedelta_minutes m)"
  shows "timedelta_of_minutes m = Inr (timedelta_minutes m)"
proof -
  let ?td = "timedelta_minutes m"
  let ?D = "86400000000 :: int"
  from assms have a: "0 < t div ?D" "t div ?D \<le> 3652059"
    "0 < (t + ?td) div ?D" "(t + ?td) div ?D \<le> 3652059"
    by (simp_all add: datetime_in_range_def dt_date_def us_per_day_def)
  have "\<bar>?td div ?D\<bar> \<le> 999999999" using a by linarith
  then show ?thesis by (simp add: timedelta_of_minutes_def Let_def us_per_day_def)
qed

text \<open>
  C9, amended: propose\_patch\_for\_delay looks for the row with the flight number and the
  latest flight date. If there is none it returns the result flight\_not\_found, leaves the
  database as it is and does not raise. If there is one, and the stored departure and both
  shifted timestamps are datetimes Python can represent, it returns the departure and the
  arrival each moved by exactly the given number of minutes, and the flag
  duty\_duration\_ok of the moved window.
\<close>

theorem delay_patch_within_datetime_range:
  "(case find_flight_by_no d fno of
      None \<Rightarrow>
        (\<forall>f\<in>set (flights d). flight_no f \<noteq> fno) \<and>
        propose_patch_for_delay now d fno m rules = (d, Inr (Error ''flight_not_found''))
    | Some f \<Rightarrow>
        f \<in> set (flights d) \<and> flight_no f = fno \<and>
        (\<forall>g\<in>set (flights d). flight_no g = fno \<longrightarrow> flight_date g \<le> flight_date f) \<and>
        (datetime_in_range (sched_dep_utc f) \<and>
         datetime_in_range (shifted (sched_dep_utc f) m) \<and>
         datetime_in_range (shifted (sched_arr_utc f) m) \<longrightarrow>
           snd (propose_patch_for_delay now d fno m rules) =
             Inr (Patch \<lparr>p_flight_id = flight_id f, p_flight_no = fno,
                    new_sched_dep_utc = shifted (sched_dep_utc f) m,
                    new_sched_arr_utc = shifted (sched_arr_utc f) m,
                    p_feasible = duty_duration_ok rules (shifted (sched_dep_utc f) m)
                                   (shifted (sched_arr_utc f) m)\<rparr>)))"
proof (cases "find_flight_by_no d fno")
  case None
  then show ?thesis
    by (simp add: find_flight_by_no_None [symmetric] propose_patch_for_delay_def)
next
  case (Some f)
  note f = find_flight_by_no_Some [OF Some]
  have "snd (propose_patch_for_delay now d fno m rules) =
             Inr (Patch \<lparr>p_flight_id = flight_id f, p_flight_no = fno,
                    new_sched_dep_utc = shifted (sched_dep_utc f) m,
                    new_sched_arr_utc = shifted (sched_arr_utc f) m,
                    p_feasible = duty_duration_ok rules (shifted (sched_dep_utc f) m)
                                   (shifted (sched_arr_utc f) m)\<rparr>)"
    if r: "datetime_in_range (sched_dep_utc f)" "datetime_in_range (shifted (sched_dep_utc f) m)"
      "datetime_in_range (shifted (sched_arr_utc f) m)"
  proof -
    from r(1,2) have td: "timedelta_of_minutes m = Inr (timedelta_minutes m)"
      by (intro timedelta_of_minutes_in_range) (simp_all add: shifted_def timedelta_minutes_def)
    from r(2,3) have
      "datetime_add (sched_dep_utc f) (timedelta_minutes m) = Inr (shifted (sched_dep_utc f) m)"
      "datetime_add (sched_arr_utc f) (timedelta_minutes m) = Inr (shifted (sched_arr_utc f) m)"
      by (simp_all add: datetime_add_def shifted_def timedelta_minutes_def)
    with td Some f(2) show ?thesis
      by (simp add: propose_patch_for_delay_def Let_def)
  qed
  with Some f show ?thesis by simp
qed


text \<open>
  C9, as stated, promises the shifted timestamps for every delay. A delay of 4294967296
  minutes moves the flight of 2025-01-02 past the year 9999, and the addition raises
  OverflowError after the disruption has been recorded.
\<close>

theorem delay_patch_overflow:
  "find_flight_by_no streak_db ''6E101'' = Some (example_flight 2 739253 8 10) \<and>
   snd (propose_patch_for_delay (mk_datetime 739252 0 0) streak_db ''6E101'' 4294967296 example_rules)
     = Inl OverflowError"
  by code_simp

theorem delay_patch_within_datetime_range_witness:
  "find_flight_by_no streak_db ''6E101'' = Some (example_flight 2 739253 8 10) \<and>
   datetime_in_range (mk_datetime 739253 8 0) \<and>
   datetime_in_range (shifted (mk_datetime 739253 8 0) 60) \<and>
   datetime_in_range (shifted (mk_datetime 739253 10 0) 60) \<and>
   snd (propose_patch_for_delay (mk_datetime 739252 0 0) streak_db ''6E101'' 60 example_rules) =
     Inr (Patch \<lparr>p_flight_id = 2, p_flight_no = ''6E101'',
            new_sched_dep_utc = mk_datetime 739253 9 0,
            new_sched_arr_utc = mk_datetime 739253 11 0,
            p_feasible = True\<rparr>) \<and>
   find_flight_by_no streak_db ''6E999'' = None \<and>
   propose_patch_for_delay (mk_datetime 739252 0 0) streak_db ''6E999'' 60 example_rules =
     (streak_db, Inr (Error ''flight_not_found''))"
proof -
  have s: "find_flight_by_no streak_db ''6E101'' = Some (example_flight 2 739253 8 10)"
    by code_simp
  have n: "find_flight_by_no streak_db ''6E999'' = None"
    by code_simp
  have r: "datetime_in_range (mk_datetime 739253 8 0)"
    "datetime_in_range (shifted (mk_datetime 739253 8 0) 60)"
    "datetime_in_range (shifted (mk_datetime 739253 10 0) 60)"
    by code_simp+
  have v: "shifted (mk_datetime 739253 8 0) 60 = mk_datetime 739253 9 0"
    "shifted (mk_datetime 739253 10 0) 60 = mk_datetime 739253 11 0"
    "duty_duration_ok example_rules (mk_datetime 739253 9 0) (mk_datetime 739253 11 0)"
    by code_simp+
  from delay_patch_within_datetime_range
    [of streak_db "''6E101''" "mk_datetime 739252 0 0" 60 example_rules] s r v
  have one: "snd (propose_patch_for_delay (mk_datetime 739252 0 0) streak_db ''6E101'' 60 example_rules) =
     Inr (Patch \<lparr>p_flight_id = 2, p_flight_no = ''6E101'',
            new_sched_dep_utc = mk_datetime 739253 9 0,
            new_sched_arr_utc = mk_datetime 739253 11 0,
            p_feasible = True\<rparr>)"
    by (simp add: example_flight_def)
  from delay_patch_within_datetime_range
    [of streak_db "''6E999''" "mk_datetime 739252 0 0" 60 example_rules] n
  have two: "propose_patch_for_delay (mk_datetime 739252 0 0) streak_db ''6E999'' 60 example_rules =
     (streak_db, Inr (Error ''flight_not_found''))"
    by simp
  from s n r one two show ?thesis by (intro conjI)
qed

section \<open>Overlapping duties\<close>




















section \<open>Committing a roster\<close>

lemma enumerate_snoc: "enumerate n (xs @ [x]) = enumerate n xs @ [(n + length xs, x)]"
  by (induction xs arbitrary: n) simp_all

lemma Max_upto_ids:
  assumes "0 < n"
  shows "Max (set (map int [Suc 0..<Suc 0 + n])) = int n"
proof (rule Max_eqI)
  show "finite (set (map int [Suc 0..<Suc 0 + n]))" by simp
  show "\<And>y. y \<in> set (map int [Suc 0..<Suc 0 + n]) \<Longrightarrow> y \<le> int n" by auto
  from assms show "int n \<in> set (map int [Suc 0..<Suc 0 + n])" by auto
qed

lemma duty_ids_enumerate:
  "map duty_id (map period_row (enumerate n es)) = map int [n..<n + length es]"
proof -
  have "map duty_id (map period_row xs) = map int (map fst xs)" for xs
    by (induction xs) (auto simp: period_row_def)
  then show ?thesis by (simp only: map_fst_enumerate)
qed

lemma next_duty_id_stored:
  "next_duty_id (map period_row (enumerate (Suc 0) es)) = int (length es) + 1"
proof (cases "es = []")
  case True
  then show ?thesis by (simp add: next_duty_id_def)
next
  case False
  then have pos: "0 < length es" by simp
  have ne: "map period_row (enumerate (Suc 0) es) \<noteq> []" using False by (cases es) simp_all
  have "Max (set (map duty_id (map period_row (enumerate (Suc 0) es)))) = int (length es)"
    by (simp only: duty_ids_enumerate Max_upto_ids [OF pos])
  with ne show ?thesis by (simp only: next_duty_id_def if_False)
qed

lemma stored_tables:
  "flights (stored d es) = flights d" "crews (stored d es) = crews d"
  "crew_qualifications (stored d es) = crew_qualifications d"
  "crew_preferences (stored d es) = crew_preferences d"
  "crew_availabilities (stored d es) = crew_availabilities d"
  "disruption_records (stored d es) = disruption_records d"
  "duty_periods (stored d es) = map period_row (enumerate (Suc 0) es)"
  "duty_flights (stored d es) = map flight_row (enumerate (Suc 0) es)"
  by (simp_all add: stored_def)

lemma find_filter_conv: "find P xs = (case filter P xs of [] \<Rightarrow> None | x # _ \<Rightarrow> Some x)"
  by (induction xs) simp_all

lemma flight_known_find:
  "flight_known d a \<longleftrightarrow> find (\<lambda>f. flight_id f = a_flight_id a) (flights d) \<noteq> None"
  by (auto simp: flight_known_def find_None_iff list_ex_iff)

lemma flight_known_stored: "flight_known (stored d es) a = flight_known d a"
  by (simp add: flight_known_def stored_tables)

lemma crew_base_stored: "crew_base (stored d es) cid a = crew_base d cid a"
  by (simp add: crew_base_def stored_tables split: option.splits)

lemma save_assignment_stored:
  "save_assignment cid base (stored d es) a =
     stored d (es @ (if flight_known d a then [(cid, base, a)] else []))"
proof (cases "find (\<lambda>f. flight_id f = a_flight_id a) (flights d)")
  case None
  then show ?thesis
    by (simp add: save_assignment_def flight_known_find stored_tables)
next
  case (Some fl)
  then have k: "flight_known d a" by (simp add: flight_known_find)
  have "save_assignment cid base (stored d es) a =
      (stored d es)\<lparr>duty_periods := duty_periods (stored d es) @
                [period_row (Suc (length es), cid, base, a)],
             duty_flights := duty_flights (stored d es) @
                [flight_row (Suc (length es), cid, base, a)]\<rparr>"
    using Some
    by (simp add: save_assignment_def stored_tables next_duty_id_stored Let_def
        period_row_def flight_row_def)
  also have "\<dots> = stored d (es @ [(cid, base, a)])"
    by (simp add: stored_def enumerate_snoc)
  finally show ?thesis using k by simp
qed

lemma foldl_save_assignment_stored:
  "foldl (save_assignment cid base) (stored d es) as =
     stored d (es @ map (\<lambda>a. (cid, base, a)) (filter (flight_known d) as))"
  by (induction as arbitrary: es) (simp_all add: save_assignment_stored)

lemma save_crew_duties_stored:
  "save_crew_duties (stored d es) (cid, cas) =
     stored d (es @ map (\<lambda>a. (cid, crew_base d cid (hd cas), a)) (filter (flight_known d) cas))"
proof (cases cas)
  case Nil
  then show ?thesis by (simp add: save_crew_duties_def)
next
  case (Cons a rest)
  have "save_crew_duties (stored d es) (cid, a # rest) =
      foldl (save_assignment cid (crew_base d cid a)) (stored d es) (a # rest)"
    by (simp only: save_crew_duties_def prod.case list.case crew_base_stored)
  with Cons show ?thesis
    by (simp only: foldl_save_assignment_stored list.sel)
qed

lemma foldl_save_crew_duties_stored:
  "foldl save_crew_duties (stored d es) groups =
     stored d (es @ concat (map (\<lambda>(cid, cas).
        map (\<lambda>a. (cid, crew_base d cid (hd cas), a)) (filter (flight_known d) cas)) groups))"
proof (induction groups arbitrary: es)
  case Nil
  then show ?case by simp
next
  case (Cons g groups)
  obtain cid cas where g: "g = (cid, cas)" by (cases g) auto
  show ?case
    by (simp add: g save_crew_duties_stored Cons.IH)
qed

lemma clear_duty_tables_stored: "clear_duty_tables d = stored d []"
  by (simp add: clear_duty_tables_def stored_def)

lemma clear_duty_tables_tables:
  "flights (clear_duty_tables d) = flights d" "crews (clear_duty_tables d) = crews d"
  "crew_qualifications (clear_duty_tables d) = crew_qualifications d"
  "crew_preferences (clear_duty_tables d) = crew_preferences d"
  "crew_availabilities (clear_duty_tables d) = crew_availabilities d"
  "disruption_records (clear_duty_tables d) = disruption_records d"
  "duty_periods (clear_duty_tables d) = []" "duty_flights (clear_duty_tables d) = []"
  by (simp_all add: clear_duty_tables_def)


subsection \<open>The crew groups, read off the assignment list\<close>

lemma names_a_crew_conv: "names_a_crew a \<longleftrightarrow> has_crew a \<and> \<not> (a_note a = Some ''UNASSIGNED'')"
  by (simp add: names_a_crew_def has_crew_def truthy_def)

lemma names_crew_conv: "names_crew cid a \<longleftrightarrow> names_a_crew a \<and> the (a_crew_id a) = cid"
  by (auto simp: names_crew_def names_a_crew_def split: option.splits)

lemma first_occurrences_snoc:
  "first_occurrences (xs @ [x]) =
     (if x \<in> set xs then first_occurrences xs else first_occurrences xs @ [x])"
  by (simp add: first_occurrences_def)

lemma distinct_first_occurrences: "distinct (first_occurrences xs)"
  by (simp add: first_occurrences_def)

lemma set_first_occurrences: "set (first_occurrences xs) = set xs"
  by (simp add: first_occurrences_def)

lemma set_crews_named:
  "set (crews_named as) = (\<lambda>a. the (a_crew_id a)) ` {a \<in> set as. names_a_crew a}"
  by (simp add: crews_named_def set_first_occurrences)

lemma distinct_crews_named: "distinct (crews_named as)"
  by (simp add: crews_named_def distinct_first_occurrences)

lemma crews_named_snoc:
  "crews_named (as @ [a]) =
     (if names_a_crew a \<and> the (a_crew_id a) \<notin> set (crews_named as)
      then crews_named as @ [the (a_crew_id a)] else crews_named as)"
  by (simp add: crews_named_def first_occurrences_snoc set_first_occurrences)

lemma filter_names_crew_unnamed:
  assumes "cid \<notin> set (crews_named as)"
  shows "filter (names_crew cid) as = []"
proof -
  have "\<not> names_crew cid a" if "a \<in> set as" for a
    using assms that by (auto simp: set_crews_named names_crew_conv)
  then show ?thesis by (simp add: filter_empty_conv)
qed

lemma map_of_keyed:
  "map_of (map (\<lambda>c. (c, g c)) ks) k = (if k \<in> set ks then Some (g k) else None)"
  by (induction ks) simp_all

lemma update_keyed:
  "distinct ks \<Longrightarrow> AList.update k v (map (\<lambda>c. (c, g c)) ks) =
     (if k \<in> set ks then map (\<lambda>c. (c, if c = k then v else g c)) ks
      else map (\<lambda>c. (c, g c)) ks @ [(k, v)])"
  by (induction ks) auto

lemma crew_groups_snoc_named:
  assumes n: "names_a_crew a" and c: "the (a_crew_id a) = cid"
  shows "AList.update cid (dict_get (map_of (crew_groups as)) cid [] @ [a]) (crew_groups as) =
         crew_groups (as @ [a])"
proof -
  have nc: "names_crew k a \<longleftrightarrow> k = cid" for k
    using n c by (auto simp: names_crew_conv)
  have get: "dict_get (map_of (crew_groups as)) cid [] = filter (names_crew cid) as"
    by (simp add: crew_groups_def map_of_keyed dict_get_def filter_names_crew_unnamed)
  note upd = update_keyed [OF distinct_crews_named]
  show ?thesis
  proof (cases "cid \<in> set (crews_named as)")
    case True
    then have "crews_named (as @ [a]) = crews_named as"
      using c by (simp add: crews_named_snoc)
    then show ?thesis
      using True unfolding get by (simp add: crew_groups_def upd nc)
  next
    case False
    then have "crews_named (as @ [a]) = crews_named as @ [cid]"
      using n c by (simp add: crews_named_snoc)
    moreover have "k \<noteq> cid" if "k \<in> set (crews_named as)" for k
      using that False by auto
    ultimately show ?thesis
      using False unfolding get
      by (simp add: crew_groups_def upd nc filter_names_crew_unnamed)
  qed
qed

lemma crew_groups_snoc_unnamed:
  assumes "\<not> names_a_crew a"
  shows "crew_groups (as @ [a]) = crew_groups as"
proof -
  have "\<not> names_crew k a" for k using assms by (simp add: names_crew_def)
  then show ?thesis using assms by (simp add: crew_groups_def crews_named_snoc)
qed

lemma group_by_crew_groups: "group_by_crew as = crew_groups as"
proof (induction as rule: rev_induct)
  case Nil
  show ?case by (simp add: group_by_crew_def crew_groups_def crews_named_def first_occurrences_def)
next
  case (snoc a as)
  have step: "group_by_crew (as @ [a]) =
      (if has_crew a \<and> \<not> (a_note a = Some ''UNASSIGNED'')
       then AList.update (the (a_crew_id a))
              (dict_get (map_of (group_by_crew as)) (the (a_crew_id a)) [] @ [a]) (group_by_crew as)
       else group_by_crew as)"
    by (simp add: group_by_crew_def Let_def)
  show ?case
  proof (cases "names_a_crew a")
    case True
    then show ?thesis
      by (simp only: step snoc.IH names_a_crew_conv [symmetric] if_True
          crew_groups_snoc_named [OF True refl])
  next
    case False
    then show ?thesis
      by (simp only: step snoc.IH names_a_crew_conv [symmetric] if_False
          crew_groups_snoc_unnamed [OF False])
  qed
qed

lemma crew_base_for:
  "crew_base d cid (hd (filter (names_crew cid) as)) = base_for d cid as"
  by (simp add: crew_base_def base_for_def find_filter_conv split: list.splits)

lemma saved_entries_groups:
  "concat (map (\<lambda>(cid, cas).
        map (\<lambda>a. (cid, crew_base d cid (hd cas), a)) (filter (flight_known d) cas))
      (group_by_crew as)) = saved_entries d as"
  by (simp add: group_by_crew_groups crew_groups_def saved_entries_def crew_base_for comp_def)

lemma save_assignments_to_duty_tables_eq:
  "save_assignments_to_duty_tables d assignments =
     [clear_duty_tables d, stored d (saved_entries d assignments)]"
proof -
  have "foldl save_crew_duties (stored d []) (group_by_crew assignments) =
        stored d (saved_entries d assignments)"
    by (simp only: foldl_save_crew_duties_stored saved_entries_groups append_Nil)
  then show ?thesis
    by (simp only: save_assignments_to_duty_tables_def Let_def clear_duty_tables_stored)
qed

subsection \<open>One entry for each assignment that is written\<close>

lemma mset_filter_by_key:
  assumes "distinct ks"
  shows "mset (concat (map (\<lambda>k. filter (\<lambda>a. key a = k \<and> P a) as) ks)) =
         mset (filter (\<lambda>a. key a \<in> set ks \<and> P a) as)"
  using assms
proof (induction ks)
  case Nil
  show ?case by simp
next
  case (Cons k ks)
  then have k: "k \<notin> set ks" and d: "distinct ks" by simp_all
  have split: "mset (filter (\<lambda>a. key a = k \<and> P a) xs) + mset (filter (\<lambda>a. key a \<in> set ks \<and> P a) xs) =
        mset (filter (\<lambda>a. key a \<in> set (k # ks) \<and> P a) xs)" for xs
    using k by (induction xs) auto
  show ?case
    by (simp only: list.map concat.simps mset_append Cons.IH [OF d] split)
qed

lemma saved_entries_assignments:
  "map (\<lambda>e. snd (snd e)) (saved_entries d as) =
     concat (map (\<lambda>k. filter (\<lambda>a. the (a_crew_id a) = k \<and> written d a) as) (crews_named as))"
proof -
  have "(names_crew k a \<and> flight_known d a) = (the (a_crew_id a) = k \<and> written d a)" for k a
    by (auto simp: names_crew_conv written_def)
  then show ?thesis
    by (simp add: saved_entries_def map_concat comp_def)
qed

lemma mset_saved_entries:
  "mset (map (\<lambda>e. snd (snd e)) (saved_entries d as)) = mset (filter (written d) as)"
proof -
  have "filter (\<lambda>a. the (a_crew_id a) \<in> set (crews_named as) \<and> written d a) as =
        filter (written d) as"
    by (rule filter_cong) (auto simp: set_crews_named written_def)
  then show ?thesis
    by (simp only: saved_entries_assignments mset_filter_by_key [OF distinct_crews_named])
qed

lemma saved_entries_crew:
  assumes "(cid, base, a) \<in> set (saved_entries d as)"
  shows "a_crew_id a = Some cid \<and> base = base_for d cid as"
  using assms by (auto simp: saved_entries_def names_crew_def)

lemma length_saved_entries: "length (saved_entries d as) = length (filter (written d) as)"
proof -
  have "length (map (\<lambda>e. snd (snd e)) (saved_entries d as)) = length (filter (written d) as)"
    by (rule mset_eq_length) (rule mset_saved_entries)
  then show ?thesis by simp
qed

lemma duty_flight_ids_enumerate:
  "map l_duty_id (map flight_row (enumerate n es)) = map int [n..<n + length es]"
proof -
  have "map l_duty_id (map flight_row xs) = map int (map fst xs)" for xs
    by (induction xs) (auto simp: flight_row_def)
  then show ?thesis by (simp only: map_fst_enumerate)
qed

lemma row_content_enumerate:
  "map row_content (zip (map period_row (enumerate n es)) (map flight_row (enumerate n es))) =
   map (\<lambda>e. (fst e, a_duty_start_utc (snd (snd e)), a_duty_end_utc (snd (snd e)), fst (snd e),
              a_flight_id (snd (snd e)), 1)) es"
  by (induction es arbitrary: n) (auto simp: row_content_def period_row_def flight_row_def)

lemma row_content_saved_entries:
  "map row_content (zip (map period_row (enumerate n (saved_entries d as)))
                        (map flight_row (enumerate n (saved_entries d as)))) =
   map (expected_content d as) (map (\<lambda>e. snd (snd e)) (saved_entries d as))"
proof -
  have "(fst e, a_duty_start_utc (snd (snd e)), a_duty_end_utc (snd (snd e)), fst (snd e),
              a_flight_id (snd (snd e)), 1) = expected_content d as (snd (snd e))"
    if "e \<in> set (saved_entries d as)" for e
  proof -
    obtain cid base a where e: "e = (cid, base, a)" by (cases e) auto
    from that have "a_crew_id a = Some cid \<and> base = base_for d cid as"
      unfolding e by (rule saved_entries_crew)
    then show ?thesis by (simp add: e expected_content_def)
  qed
  then show ?thesis
    by (simp only: row_content_enumerate map_map comp_def cong: map_cong)
qed

lemma mset_row_content_stored:
  "mset (map row_content (zip (duty_periods (stored d (saved_entries d as)))
                              (duty_flights (stored d (saved_entries d as))))) =
   mset (map (expected_content d as) (filter (written d) as))"
proof -
  have "image_mset (expected_content d as) (mset (map (\<lambda>e. snd (snd e)) (saved_entries d as))) =
        image_mset (expected_content d as) (mset (filter (written d) as))"
    by (simp only: mset_saved_entries)
  then have "mset (map (expected_content d as) (map (\<lambda>e. snd (snd e)) (saved_entries d as))) =
        mset (map (expected_content d as) (filter (written d) as))"
    by (simp only: mset_map)
  then show ?thesis
    by (simp only: stored_tables row_content_saved_entries)
qed

lemma duty_ids_stored:
  "map duty_id (duty_periods (stored d (saved_entries d as))) =
     map int [1..<Suc (length (filter (written d) as))]"
  "map l_duty_id (duty_flights (stored d (saved_entries d as))) =
     map int [1..<Suc (length (filter (written d) as))]"
  by (simp_all only: stored_tables duty_ids_enumerate duty_flight_ids_enumerate
      length_saved_entries One_nat_def plus_1_eq_Suc add_Suc add_0)

text \<open>
  C7, amended: save\_assignments\_to\_duty\_tables takes no period and commits twice. After
  the first commit both duty tables are empty, whatever they held and for whatever period.
  After the second commit they hold one duty period and one duty flight for each
  assignment of the list whose crew id is neither missing nor 0, which is not noted
  UNASSIGNED and whose flight exists, and for nothing else: the duty ids count from 1, the
  row pairs carry the crew, the times, the base and the flight of these assignments (as
  many pairs as there are such assignments, repeated ones included), and their order is
  that of the crews' first occurrences, each crew's assignments in list order. The other
  tables are the same in both committed states.
\<close>

theorem commit_replaces_all_duty_rows:
  "save_assignments_to_duty_tables d assignments =
     [clear_duty_tables d, stored d (saved_entries d assignments)] \<and>
   duty_periods (clear_duty_tables d) = [] \<and> duty_flights (clear_duty_tables d) = [] \<and>
   map duty_id (duty_periods (last (save_assignments_to_duty_tables d assignments))) =
     map int [1..<Suc (length (filter (written d) assignments))] \<and>
   map l_duty_id (duty_flights (last (save_assignments_to_duty_tables d assignments))) =
     map int [1..<Suc (length (filter (written d) assignments))] \<and>
   mset (map row_content
      (zip (duty_periods (last (save_assignments_to_duty_tables d assignments)))
           (duty_flights (last (save_assignments_to_duty_tables d assignments))))) =
     mset (map (expected_content d assignments) (filter (written d) assignments)) \<and>
   mset (map (\<lambda>e. snd (snd e)) (saved_entries d assignments)) =
     mset (filter (written d) assignments) \<and>
   (\<forall>d' \<in> set (save_assignments_to_duty_tables d assignments).
      flights d' = flights d \<and> crews d' = crews d \<and>
      crew_qualifications d' = crew_qualifications d \<and> crew_preferences d' = crew_preferences d \<and>
      crew_availabilities d' = crew_availabilities d \<and>
      disruption_records d' = disruption_records d)"
proof -
  have eq: "save_assignments_to_duty_tables d assignments =
     [clear_duty_tables d, stored d (saved_entries d assignments)]"
    by (rule save_assignments_to_duty_tables_eq)
  have l: "last (save_assignments_to_duty_tables d assignments) =
     stored d (saved_entries d assignments)"
    by (simp only: eq) simp
  have frame: "flights d' = flights d \<and> crews d' = crews d \<and>
      crew_qualifications d' = crew_qualifications d \<and> crew_preferences d' = crew_preferences d \<and>
      crew_availabilities d' = crew_availabilities d \<and>
      disruption_records d' = disruption_records d"
    if "d' \<in> set (save_assignments_to_duty_tables d assignments)" for d'
  proof -
    from that have "d' = clear_duty_tables d \<or> d' = stored d (saved_entries d assignments)"
      by (simp only: eq) simp
    then show ?thesis
      by (auto simp only: clear_duty_tables_tables stored_tables)
  qed
  show ?thesis
  proof (intro conjI ballI)
    show "save_assignments_to_duty_tables d assignments =
       [clear_duty_tables d, stored d (saved_entries d assignments)]"
      by (rule eq)
    show "duty_periods (clear_duty_tables d) = []" "duty_flights (clear_duty_tables d) = []"
      by (simp_all only: clear_duty_tables_tables)
    show "map duty_id (duty_periods (last (save_assignments_to_duty_tables d assignments))) =
       map int [1..<Suc (length (filter (written d) assignments))]"
      by (simp only: l duty_ids_stored)
    show "map l_duty_id (duty_flights (last (save_assignments_to_duty_tables d assignments))) =
       map int [1..<Suc (length (filter (written d) assignments))]"
      by (simp only: l duty_ids_stored)
    show "mset (map row_content
        (zip (duty_periods (last (save_assignments_to_duty_tables d assignments)))
             (duty_flights (last (save_assignments_to_duty_tables d assignments))))) =
       mset (map (expected_content d assignments) (filter (written d) assignments))"
      by (simp only: l mset_row_content_stored)
    show "mset (map (\<lambda>e. snd (snd e)) (saved_entries d assignments)) =
       mset (filter (written d) assignments)"
      by (rule mset_saved_entries)
  qed (use frame in blast)+
qed

text \<open>
  C7, as stated, keeps the rows outside the requested period and never shows a partly
  committed roster. The database holds two duties of 2024-04-24; committing a one-flight roster
  for 2025-01-01 first commits a state with no duty row at all, then the state with the
  new row only: the rows of April 2024 are gone, and the cleared state was committed on its own.
\<close>

theorem commit_drops_rows_outside_period:
  "map duty_start_utc (duty_periods old_roster_db) =
     [mk_datetime 739000 8 0, mk_datetime 739000 9 0] \<and>
   map duty_periods (save_assignments_to_duty_tables old_roster_db
      [assigned_entry (example_crew 1 ''A'') (example_flight 1 739252 8 10)]) =
     [[], [\<lparr>duty_id = 1, d_crew_id = 1, duty_start_utc = mk_datetime 739252 8 0,
            duty_end_utc = mk_datetime 739252 10 0, d_base_iata = ''DEL''\<rparr>]]"
  by code_simp

text \<open>
  An instance: crew 1 is assigned flights 1 and 2, crew 2 (who has no crew row) flight 2 in
  between, one entry is unassigned and one names a flight that does not exist. The commit
  leaves three duty periods, crew 1's two first, and the flights table as it was.
\<close>

theorem commit_replaces_all_duty_rows_witness:
  "map (\<lambda>p. (duty_id p, d_crew_id p, duty_start_utc p))
     (duty_periods (last (save_assignments_to_duty_tables old_roster_db roster_to_commit))) =
     [(1, 1, mk_datetime 739252 8 0), (2, 1, mk_datetime 739252 9 0),
      (3, 2, mk_datetime 739252 9 0)] \<and>
   last (save_assignments_to_duty_tables old_roster_db roster_to_commit)
     \<in> set (save_assignments_to_duty_tables old_roster_db roster_to_commit) \<and>
   flights (last (save_assignments_to_duty_tables old_roster_db roster_to_commit)) =
     flights old_roster_db \<and>
   length (filter (written old_roster_db) roster_to_commit) = 3"
proof -
  note c = commit_replaces_all_duty_rows [of old_roster_db roster_to_commit]
  from c have eq: "save_assignments_to_duty_tables old_roster_db roster_to_commit =
     [clear_duty_tables old_roster_db,
      stored old_roster_db (saved_entries old_roster_db roster_to_commit)]"
    by (rule conjunct1)
  have l: "last (save_assignments_to_duty_tables old_roster_db roster_to_commit) =
     stored old_roster_db (saved_entries old_roster_db roster_to_commit)"
    by (simp only: eq) simp
  have rows: "map (\<lambda>p. (duty_id p, d_crew_id p, duty_start_utc p))
     (duty_periods (stored old_roster_db (saved_entries old_roster_db roster_to_commit))) =
     [(1, 1, mk_datetime 739252 8 0), (2, 1, mk_datetime 739252 9 0),
      (3, 2, mk_datetime 739252 9 0)]"
    by code_simp
  have m: "last (save_assignments_to_duty_tables old_roster_db roster_to_commit)
     \<in> set (save_assignments_to_duty_tables old_roster_db roster_to_commit)"
    by (simp only: eq) simp
  from c have "\<forall>d' \<in> set (save_assignments_to_duty_tables old_roster_db roster_to_commit).
      flights d' = flights old_roster_db" by blast
  then have f: "flights (last (save_assignments_to_duty_tables old_roster_db roster_to_commit)) =
     flights old_roster_db" using m by (rule bspec)
  have n: "length (filter (written old_roster_db) roster_to_commit) = 3"
    by code_simp
  from rows m f n show ?thesis by (simp only: l)
qed

end
